theory Spec2Isabelle
  imports Main
begin

section \<open>RecycLens browser client: image intake, camera capture, classification\<close>

text \<open>
  The client is two scripts, \<^verbatim>\<open>upload.js\<close> and \<^verbatim>\<open>camera.js\<close>. The repository holds
  two copies of each: the pair under \<^verbatim>\<open>src/static/\<close> and an older pair kept in one
  unnamed file (\<^verbatim>\<open>src/unnamed/part_000\<close>). Definitions without a suffix embed the
  copies under \<^verbatim>\<open>src/static/\<close>; definitions ending in \<open>_part0\<close> embed the copies of
  the unnamed file.

  The scripts mutate module variables and DOM elements, raise dialogs, and register
  callbacks with the browser. The embedding passes one state record through every
  function. A function that awaits is cut at each await: the part before the await is
  one definition, the continuation is another that takes what the browser delivers.
  An uncaught exception is a value of its own (\<open>Threw\<close>), carrying the state reached
  when it was thrown. The initialisers \<^verbatim>\<open>initUpload\<close> and \<^verbatim>\<open>initCamera\<close> register the
  functions below as listeners, export \<^verbatim>\<open>handleFile\<close> and set the first visibility of
  the form and the results panel; the concrete page \<open>page0\<close> is a page they have left.
\<close>

subsection \<open>Data\<close>

text \<open>A \<^verbatim>\<open>File\<close>: its name, its MIME type, and an identifier of its bytes.\<close>

record js_file =
  name :: string
  mime :: string
  blob :: nat

text \<open>
  A DOM element, with the properties the scripts read and write:
  \<^verbatim>\<open>style.display\<close>, \<^verbatim>\<open>disabled\<close>, \<^verbatim>\<open>textContent\<close>, \<^verbatim>\<open>classList\<close>,
  \<^verbatim>\<open>style.backgroundImage\<close>, the attribute \<^verbatim>\<open>aria-hidden\<close>, and \<^verbatim>\<open>srcObject\<close> of the
  video element. A media stream is the list of its track identifiers.
\<close>

type_synonym media_stream = "nat list"

record element =
  display :: string
  disabled :: bool
  textContent :: string
  classList :: "string list"
  backgroundImage :: string
  aria_hidden :: "string option"
  srcObject :: "media_stream option"

text \<open>
  What the scripts do to the world outside the page state, in order: dialogs, console
  output, calls of the network, file reader and device interfaces. \<open>LoadingOn\<close> and
  \<open>LoadingOff\<close> record that \<^verbatim>\<open>showLoading\<close> and \<^verbatim>\<open>hideLoading\<close> wrote to the button,
  so that the toggles of the busy indicator can be counted.
\<close>

datatype effect =
    Alert string
  | ConsoleError string
  | PreventDefault
  | Fetch js_file
  | ReadAsDataURL js_file
  | TrackStop nat
  | GetUserMedia
  | Play
  | ToBlob
  | LoadingOn
  | LoadingOff

text \<open>
  A closure registered as \<^verbatim>\<open>reader.onload\<close>: the file and, in the copy under
  \<^verbatim>\<open>src/static/\<close>, the \<^verbatim>\<open>autoClassify\<close> argument it captured.
\<close>

datatype callback = OnLoad js_file bool | OnLoad_part0 js_file

text \<open>Which copy of \<^verbatim>\<open>upload.js\<close> has exported its handler as \<^verbatim>\<open>window.handleFile\<close>.\<close>

datatype upload_script = Upload_static | Upload_part0

text \<open>
  The page state. \<open>selectedFile\<close> and \<open>cameraStream\<close> are the module variables.
  Each element the scripts look up is a field that is \<open>None\<close> when the lookup yields
  \<^verbatim>\<open>null\<close>: \<open>spinner\<close> and \<open>buttonText\<close> are the children of the submit button found by
  \<^verbatim>\<open>querySelector\<close>, \<open>dropzoneText\<close> is the child of the drop zone. \<open>live\<close> is the set
  of device tracks that are running. \<open>trace\<close> collects the effects, \<open>callbacks\<close> the
  registered load handlers.
\<close>

record state =
  selectedFile :: "js_file option"
  cameraStream :: "media_stream option"
  window_handleFile :: "upload_script option"
  submitBtn :: "element option"
  spinner :: "element option"
  buttonText :: "element option"
  preview :: "element option"
  dropzone :: "element option"
  dropzoneText :: "element option"
  uploadForm :: "element option"
  resultsPanel :: "element option"
  predictionText :: "element option"
  cameraFeed :: "element option"
  cameraInterface :: "element option"
  btnScan :: "element option"
  live :: "nat set"
  trace :: "effect list"
  callbacks :: "callback list"

text \<open>How a call ends: it returns, or an exception leaves it.\<close>

datatype outcome = Returned state | Threw state

fun state_of :: "outcome \<Rightarrow> state" where
  "state_of (Returned s) = s"
| "state_of (Threw s) = s"

fun and_then :: "outcome \<Rightarrow> (state \<Rightarrow> outcome) \<Rightarrow> outcome" where
  "and_then (Returned s) k = k s"
| "and_then (Threw s) k = Threw s"

subsection \<open>Browser primitives\<close>

definition alert :: "string \<Rightarrow> state \<Rightarrow> state" where
  "alert m s = s\<lparr>trace := trace s @ [Alert m]\<rparr>"

definition console_error :: "string \<Rightarrow> state \<Rightarrow> state" where
  "console_error m s = s\<lparr>trace := trace s @ [ConsoleError m]\<rparr>"

definition classList_add :: "string \<Rightarrow> string list \<Rightarrow> string list" where
  "classList_add c cs = (if c \<in> set cs then cs else cs @ [c])"

definition classList_remove :: "string \<Rightarrow> string list \<Rightarrow> string list" where
  "classList_remove c cs = filter (\<lambda>x. x \<noteq> c) cs"

text \<open>
  \<^verbatim>\<open>String.prototype.split\<close> with a one-character separator: the pieces between the
  separators, never an empty array. \<^verbatim>\<open>pop()\<close> then takes the last piece.
\<close>

fun js_split :: "char \<Rightarrow> string \<Rightarrow> string list" where
  "js_split d [] = [[]]"
| "js_split d (c # cs) =
     (if c = d then [] # js_split d cs
      else (case js_split d cs of
              [] \<Rightarrow> [[c]]
            | w # ws \<Rightarrow> (c # w) # ws))"

text \<open>
  \<^verbatim>\<open>toLowerCase\<close> on the letters A to Z. The allowed extensions consist of the ASCII
  letters only, and no other character lower-cases to one of these letters.
\<close>

definition toLowerCase_char :: "char \<Rightarrow> char" where
  "toLowerCase_char c =
     (let n = (of_char c :: nat) in if 65 \<le> n \<and> n \<le> 90 then char_of (n + 32) else c)"

definition toLowerCase :: "string \<Rightarrow> string" where
  "toLowerCase cs = map toLowerCase_char cs"

subsection \<open>upload.js (src/static/upload.js)\<close>

text \<open>
  \<^verbatim>\<open>showLoading(button)\<close> and \<^verbatim>\<open>hideLoading(button)\<close> are only ever called with
  \<^verbatim>\<open>submitBtn\<close>; the embedding fixes that argument.
\<close>

definition showLoading :: "state \<Rightarrow> state" where
  "showLoading s =
     (case submitBtn s of
        None \<Rightarrow> s
      | Some b \<Rightarrow>
          s\<lparr>submitBtn := Some (b\<lparr>disabled := True\<rparr>),
            spinner := map_option (\<lambda>e. e\<lparr>display := ''inline-block''\<rparr>) (spinner s),
            buttonText := map_option (\<lambda>e. e\<lparr>textContent := ''Classifying...''\<rparr>) (buttonText s),
            trace := trace s @ [LoadingOn]\<rparr>)"

definition hideLoading :: "state \<Rightarrow> state" where
  "hideLoading s =
     (case submitBtn s of
        None \<Rightarrow> s
      | Some b \<Rightarrow>
          s\<lparr>submitBtn := Some (b\<lparr>disabled := False\<rparr>),
            spinner := map_option (\<lambda>e. e\<lparr>display := ''none''\<rparr>) (spinner s),
            buttonText := map_option (\<lambda>e. e\<lparr>textContent := ''Classify Plastic''\<rparr>) (buttonText s),
            trace := trace s @ [LoadingOff]\<rparr>)"

text \<open>
  The parsed body of the response of \<^verbatim>\<open>POST /predict\<close>: \<open>success\<close> is the truth value
  of \<^verbatim>\<open>data.success\<close>, \<open>prediction\<close> the text \<^verbatim>\<open>data.prediction\<close> becomes as
  \<^verbatim>\<open>textContent\<close>, \<open>error\<close> the field \<^verbatim>\<open>data.error\<close> when the body has one.
\<close>

record payload =
  success :: bool
  prediction :: string
  error :: "string option"

text \<open>
  What \<^verbatim>\<open>response.json()\<close> gives: it rejects (\<open>NotJson\<close>), or it yields \<^verbatim>\<open>null\<close>, or
  a value whose fields can be read.
\<close>

datatype body = NotJson | JsonNull | Json payload

text \<open>What \<^verbatim>\<open>fetch\<close> gives: it rejects, or a response with its \<^verbatim>\<open>ok\<close> flag and body.\<close>

datatype fetch_result = NetworkError | Response bool body

definition displayResults :: "payload \<Rightarrow> state \<Rightarrow> state" where
  "displayResults data s =
     s\<lparr>predictionText := map_option (\<lambda>e. e\<lparr>textContent := prediction data\<rparr>) (predictionText s),
       uploadForm := map_option (\<lambda>e. e\<lparr>display := ''none''\<rparr>) (uploadForm s),
       resultsPanel := map_option (\<lambda>e. e\<lparr>display := ''flex''\<rparr>) (resultsPanel s),
       preview := map_option
         (\<lambda>e. e\<lparr>backgroundImage := ''none'',
               aria_hidden := Some ''true'',
               classList := classList_remove ''active'' (classList e)\<rparr>) (preview s)\<rparr>"

definition allowedExtensions :: "string list" where
  "allowedExtensions = [''png'', ''jpg'', ''jpeg'']"

definition fileExtension :: "string \<Rightarrow> string" where
  "fileExtension n = toLowerCase (last (js_split CHR ''.'' n))"

datatype event = SubmitEvent

text \<open>
  \<^verbatim>\<open>classifyImage(e)\<close> up to its first await: the guard on \<^verbatim>\<open>selectedFile\<close>, then
  \<^verbatim>\<open>showLoading\<close> and the \<^verbatim>\<open>fetch\<close> call.
\<close>

definition classifyImage :: "event option \<Rightarrow> state \<Rightarrow> state" where
  "classifyImage e s =
     (let s0 = (case e of None \<Rightarrow> s | Some _ \<Rightarrow> s\<lparr>trace := trace s @ [PreventDefault]\<rparr>) in
      case selectedFile s0 of
        None \<Rightarrow> alert ''Please select an image first.'' s0
      | Some f \<Rightarrow> (let s1 = showLoading s0 in s1\<lparr>trace := trace s1 @ [Fetch f]\<rparr>))"

text \<open>The \<^verbatim>\<open>catch\<close> block of \<^verbatim>\<open>classifyImage\<close>.\<close>

definition classifyImage_catch :: "state \<Rightarrow> state" where
  "classifyImage_catch s =
     console_error ''Fetch error:''
       (alert ''A network error occurred during classification. Check console.'' s)"

text \<open>\<^verbatim>\<open>data.error || 'Unknown error'\<close>: an absent or empty field gives the default.\<close>

definition error_or_unknown :: "payload \<Rightarrow> string" where
  "error_or_unknown data =
     (case error data of
        None \<Rightarrow> ''Unknown error''
      | Some m \<Rightarrow> if m = [] then ''Unknown error'' else m)"

text \<open>
  The rest of the \<^verbatim>\<open>try\<close> block once \<^verbatim>\<open>fetch\<close> has settled, with the \<^verbatim>\<open>catch\<close>:
  reading a field of \<^verbatim>\<open>null\<close> throws a TypeError, which the \<^verbatim>\<open>catch\<close> takes like a
  rejected \<^verbatim>\<open>fetch\<close> or \<^verbatim>\<open>json()\<close>.
\<close>

definition classifyImage_response :: "fetch_result \<Rightarrow> state \<Rightarrow> state" where
  "classifyImage_response r s =
     (case r of
        NetworkError \<Rightarrow> classifyImage_catch s
      | Response ok NotJson \<Rightarrow> classifyImage_catch s
      | Response ok JsonNull \<Rightarrow> classifyImage_catch s
      | Response ok (Json data) \<Rightarrow>
          if ok \<and> success data then displayResults data s
          else console_error ''Prediction failed:''
                 (alert (''Classification Error: '' @ error_or_unknown data) s))"

text \<open>The continuation of \<^verbatim>\<open>classifyImage\<close>: the response handling, then \<^verbatim>\<open>finally\<close>.\<close>

definition classifyImage_settled :: "fetch_result \<Rightarrow> state \<Rightarrow> state" where
  "classifyImage_settled r s = hideLoading (classifyImage_response r s)"

text \<open>
  \<^verbatim>\<open>handleFile(file, autoClassify = false)\<close>: the validation, the assignment to
  \<^verbatim>\<open>selectedFile\<close>, and the registration of the load handler.
\<close>

definition handleFile :: "js_file \<Rightarrow> bool \<Rightarrow> state \<Rightarrow> state" where
  "handleFile f autoClassify s =
     (if fileExtension (name f) \<notin> set allowedExtensions
      then alert ''Invalid file type. Please upload a PNG, JPG, or JPEG image.'' s
      else s\<lparr>selectedFile := Some f,
             callbacks := callbacks s @ [OnLoad f autoClassify],
             trace := trace s @ [ReadAsDataURL f]\<rparr>)"

text \<open>The part of \<^verbatim>\<open>reader.onload\<close> that applies the preview; \<open>url\<close> is \<^verbatim>\<open>e.target.result\<close>.\<close>

definition handleFile_preview :: "string \<Rightarrow> state \<Rightarrow> state" where
  "handleFile_preview url s =
     (let s1 = s\<lparr>preview := map_option
                  (\<lambda>p. p\<lparr>backgroundImage := ''url('' @ [CHR 0x27] @ url @ [CHR 0x27] @ '')'',
                        classList := classList_add ''active'' (classList p),
                        aria_hidden := Some ''false''\<rparr>) (preview s)\<rparr>;
          s2 = (case dropzone s1 of
                  None \<Rightarrow> s1
                | Some _ \<Rightarrow> s1\<lparr>dropzoneText :=
                              map_option (\<lambda>t. t\<lparr>display := ''none''\<rparr>) (dropzoneText s1)\<rparr>)
      in s2\<lparr>submitBtn := map_option (\<lambda>b. b\<lparr>disabled := False\<rparr>) (submitBtn s2)\<rparr>)"

text \<open>\<^verbatim>\<open>reader.onload\<close>: the preview, then the call of \<^verbatim>\<open>classifyImage(null)\<close> if asked.\<close>

definition handleFile_onload :: "js_file \<Rightarrow> bool \<Rightarrow> string \<Rightarrow> state \<Rightarrow> state" where
  "handleFile_onload f autoClassify url s =
     (let s1 = handleFile_preview url s in
      if autoClassify then classifyImage None s1 else s1)"

subsection \<open>upload.js (the copy in src/unnamed/part_000)\<close>

text \<open>
  This copy reads the children of the button and the elements of the page without
  testing them for \<^verbatim>\<open>null\<close>: a missing element makes the statement throw a TypeError,
  after the writes made before it.
\<close>

definition showLoading_part0 :: "state \<Rightarrow> outcome" where
  "showLoading_part0 s =
     (case submitBtn s of
        None \<Rightarrow> Returned s
      | Some b \<Rightarrow>
          (let s1 = s\<lparr>submitBtn := Some (b\<lparr>disabled := True\<rparr>),
                      trace := trace s @ [LoadingOn]\<rparr> in
           case spinner s1 of
             None \<Rightarrow> Threw s1
           | Some sp \<Rightarrow>
               (let s2 = s1\<lparr>spinner := Some (sp\<lparr>display := ''inline-block''\<rparr>)\<rparr> in
                case buttonText s2 of
                  None \<Rightarrow> Threw s2
                | Some t \<Rightarrow>
                    Returned (s2\<lparr>buttonText := Some (t\<lparr>textContent := ''Classifying...''\<rparr>)\<rparr>))))"

definition hideLoading_part0 :: "state \<Rightarrow> outcome" where
  "hideLoading_part0 s =
     (case submitBtn s of
        None \<Rightarrow> Returned s
      | Some b \<Rightarrow>
          (let s1 = s\<lparr>submitBtn := Some (b\<lparr>disabled := False\<rparr>),
                      trace := trace s @ [LoadingOff]\<rparr> in
           case spinner s1 of
             None \<Rightarrow> Threw s1
           | Some sp \<Rightarrow>
               (let s2 = s1\<lparr>spinner := Some (sp\<lparr>display := ''none''\<rparr>)\<rparr> in
                case buttonText s2 of
                  None \<Rightarrow> Threw s2
                | Some t \<Rightarrow>
                    Returned (s2\<lparr>buttonText := Some (t\<lparr>textContent := ''Classify Plastic''\<rparr>)\<rparr>))))"

definition displayResults_part0 :: "payload \<Rightarrow> state \<Rightarrow> outcome" where
  "displayResults_part0 data s =
     (case predictionText s of
        None \<Rightarrow> Threw s
      | Some pt \<Rightarrow>
          (let s1 = s\<lparr>predictionText := Some (pt\<lparr>textContent := prediction data\<rparr>)\<rparr> in
           case uploadForm s1 of
             None \<Rightarrow> Threw s1
           | Some uf \<Rightarrow>
               (let s2 = s1\<lparr>uploadForm := Some (uf\<lparr>display := ''none''\<rparr>)\<rparr> in
                case resultsPanel s2 of
                  None \<Rightarrow> Threw s2
                | Some rp \<Rightarrow>
                    (let s3 = s2\<lparr>resultsPanel := Some (rp\<lparr>display := ''flex''\<rparr>)\<rparr> in
                     case preview s3 of
                       None \<Rightarrow> Threw s3
                     | Some p \<Rightarrow>
                         Returned (s3\<lparr>preview := Some
                           (p\<lparr>backgroundImage := ''none'',
                              aria_hidden := Some ''true'',
                              classList := classList_remove ''active'' (classList p)\<rparr>)\<rparr>)))))"

text \<open>
  \<^verbatim>\<open>handleFile(file)\<close>: the same validation; the submit button is enabled at once,
  after the reader has been started.
\<close>

definition handleFile_part0 :: "js_file \<Rightarrow> state \<Rightarrow> outcome" where
  "handleFile_part0 f s =
     (if fileExtension (name f) \<notin> set allowedExtensions
      then Returned (alert ''Invalid file type. Please upload a PNG, JPG, or JPEG image.'' s)
      else
        (let s1 = s\<lparr>selectedFile := Some f,
                    callbacks := callbacks s @ [OnLoad_part0 f],
                    trace := trace s @ [ReadAsDataURL f]\<rparr> in
         case submitBtn s1 of
           None \<Rightarrow> Threw s1
         | Some b \<Rightarrow> Returned (s1\<lparr>submitBtn := Some (b\<lparr>disabled := False\<rparr>)\<rparr>)))"

text \<open>\<^verbatim>\<open>reader.onload\<close>: the preview, then the text of the drop zone names the file.\<close>

definition handleFile_onload_part0 :: "js_file \<Rightarrow> string \<Rightarrow> state \<Rightarrow> outcome" where
  "handleFile_onload_part0 f url s =
     (case preview s of
        None \<Rightarrow> Threw s
      | Some p \<Rightarrow>
          (let s1 = s\<lparr>preview := Some
                      (p\<lparr>backgroundImage := ''url('' @ [CHR 0x27] @ url @ [CHR 0x27] @ '')'',
                         classList := classList_add ''active'' (classList p),
                         aria_hidden := Some ''false''\<rparr>)\<rparr> in
           case dropzone s1 of
             None \<Rightarrow> Threw s1
           | Some _ \<Rightarrow>
               (case dropzoneText s1 of
                  None \<Rightarrow> Threw s1
                | Some t \<Rightarrow>
                    Returned (s1\<lparr>dropzoneText := Some (t\<lparr>textContent := ''File: '' @ name f\<rparr>)\<rparr>))))"

text \<open>
  \<^verbatim>\<open>classifyImage(e)\<close> up to its first await. \<^verbatim>\<open>e.preventDefault()\<close> is unconditional.
  When \<^verbatim>\<open>showLoading\<close> throws, the \<^verbatim>\<open>catch\<close> and \<^verbatim>\<open>finally\<close> blocks run at once and
  no request is made. The \<^verbatim>\<open>catch\<close> block and the error text are those of the other
  copy, word for word.
\<close>

definition classifyImage_part0 :: "event option \<Rightarrow> state \<Rightarrow> outcome" where
  "classifyImage_part0 e s =
     (case e of
        None \<Rightarrow> Threw s
      | Some _ \<Rightarrow>
          (let s0 = s\<lparr>trace := trace s @ [PreventDefault]\<rparr> in
           case selectedFile s0 of
             None \<Rightarrow> Returned (alert ''Please select an image first.'' s0)
           | Some f \<Rightarrow>
               (case showLoading_part0 s0 of
                  Returned s1 \<Rightarrow> Returned (s1\<lparr>trace := trace s1 @ [Fetch f]\<rparr>)
                | Threw s1 \<Rightarrow> hideLoading_part0 (classifyImage_catch s1))))"

definition classifyImage_response_part0 :: "fetch_result \<Rightarrow> state \<Rightarrow> state" where
  "classifyImage_response_part0 r s =
     (case r of
        NetworkError \<Rightarrow> classifyImage_catch s
      | Response ok NotJson \<Rightarrow> classifyImage_catch s
      | Response ok JsonNull \<Rightarrow> classifyImage_catch s
      | Response ok (Json data) \<Rightarrow>
          if ok \<and> success data
          then (case displayResults_part0 data s of
                  Returned s1 \<Rightarrow> s1
                | Threw s1 \<Rightarrow> classifyImage_catch s1)
          else console_error ''Prediction failed:''
                 (alert (''Classification Error: '' @ error_or_unknown data) s))"

definition classifyImage_settled_part0 :: "fetch_result \<Rightarrow> state \<Rightarrow> outcome" where
  "classifyImage_settled_part0 r s = hideLoading_part0 (classifyImage_response_part0 r s)"

text \<open>The handler behind \<^verbatim>\<open>window.handleFile\<close>; the older copy ignores a second argument.\<close>

definition call_handleFile :: "upload_script \<Rightarrow> js_file \<Rightarrow> bool \<Rightarrow> state \<Rightarrow> outcome" where
  "call_handleFile h f autoClassify s =
     (case h of
        Upload_static \<Rightarrow> Returned (handleFile f autoClassify s)
      | Upload_part0 \<Rightarrow> handleFile_part0 f s)"

text \<open>Running a registered load handler with the data URL the reader produced.\<close>

fun run_callback :: "callback \<Rightarrow> string \<Rightarrow> state \<Rightarrow> outcome" where
  "run_callback (OnLoad f a) url s = Returned (handleFile_onload f a url s)"
| "run_callback (OnLoad_part0 f) url s = handleFile_onload_part0 f url s"

subsection \<open>camera.js (src/static/camera.js)\<close>

text \<open>
  \<^verbatim>\<open>stopCamera()\<close>: the tracks of the held stream are stopped and the handle cleared
  (\<open>stopCamera_tracks\<close>, the first block of the function, the same in both copies);
  then the interface is reset, without tests for \<^verbatim>\<open>null\<close> in this copy.
\<close>

definition stopCamera_tracks :: "state \<Rightarrow> state" where
  "stopCamera_tracks s =
     (case cameraStream s of
        None \<Rightarrow> s
      | Some st \<Rightarrow>
          s\<lparr>live := live s - set st,
            trace := trace s @ map TrackStop st,
            cameraStream := None\<rparr>)"

definition stopCamera :: "state \<Rightarrow> outcome" where
  "stopCamera s =
     (let s1 = stopCamera_tracks s in
      case cameraFeed s1 of
        None \<Rightarrow> Threw s1
      | Some v \<Rightarrow>
          (let s2 = s1\<lparr>cameraFeed := Some (v\<lparr>srcObject := None\<rparr>)\<rparr> in
           case cameraInterface s2 of
             None \<Rightarrow> Threw s2
           | Some ci \<Rightarrow>
               (let s3 = s2\<lparr>cameraInterface := Some (ci\<lparr>display := ''none''\<rparr>)\<rparr> in
                case dropzone s3 of
                  None \<Rightarrow> Threw s3
                | Some d \<Rightarrow>
                    (let s4 = s3\<lparr>dropzone := Some (d\<lparr>display := ''flex''\<rparr>)\<rparr> in
                     case btnScan s4 of
                       None \<Rightarrow> Threw s4
                     | Some b \<Rightarrow> Returned (s4\<lparr>btnScan := Some (b\<lparr>display := ''block''\<rparr>)\<rparr>)))))"

text \<open>\<^verbatim>\<open>startCamera()\<close> up to its first await: the guard and the request for the device.\<close>

definition startCamera :: "state \<Rightarrow> state" where
  "startCamera s =
     (case cameraFeed s of
        None \<Rightarrow> s
      | Some _ \<Rightarrow> s\<lparr>trace := trace s @ [GetUserMedia]\<rparr>)"

definition startCamera_catch :: "state \<Rightarrow> outcome" where
  "startCamera_catch s =
     stopCamera (console_error ''Camera error:''
       (alert ''Unable to access camera. Please check permissions.'' s))"

text \<open>
  The continuation once \<^verbatim>\<open>getUserMedia\<close> has settled: \<open>None\<close> is a rejection, \<open>Some st\<close>
  a stream whose tracks the browser has started. The handle is assigned, the stream is
  attached to the video element and \<^verbatim>\<open>play()\<close> is called. \<^verbatim>\<open>cameraFeed\<close> is a constant
  of the module, so the guard of \<^verbatim>\<open>startCamera\<close> still stands here.
\<close>

definition startCamera_stream :: "media_stream option \<Rightarrow> state \<Rightarrow> outcome" where
  "startCamera_stream r s =
     (case cameraFeed s of
        None \<Rightarrow> Returned s
      | Some v \<Rightarrow>
          (case r of
             None \<Rightarrow> startCamera_catch s
           | Some st \<Rightarrow>
               Returned (s\<lparr>cameraStream := Some st,
                          live := live s \<union> set st,
                          cameraFeed := Some (v\<lparr>srcObject := Some st\<rparr>),
                          trace := trace s @ [Play]\<rparr>)))"

text \<open>
  The continuation once \<^verbatim>\<open>play()\<close> has settled (\<open>ok\<close>: it resolved), under the same
  guard. A TypeError in the interface update is taken by the same \<^verbatim>\<open>catch\<close>.
\<close>

definition startCamera_played :: "bool \<Rightarrow> state \<Rightarrow> outcome" where
  "startCamera_played ok s =
     (if cameraFeed s = None then Returned s
      else if \<not> ok then startCamera_catch s
      else
        case cameraInterface s of
          None \<Rightarrow> startCamera_catch s
        | Some ci \<Rightarrow>
            (let s1 = s\<lparr>cameraInterface := Some (ci\<lparr>display := ''flex''\<rparr>)\<rparr> in
             case dropzone s1 of
               None \<Rightarrow> startCamera_catch s1
             | Some d \<Rightarrow>
                 (let s2 = s1\<lparr>dropzone := Some (d\<lparr>display := ''none''\<rparr>)\<rparr> in
                  case btnScan s2 of
                    None \<Rightarrow> startCamera_catch s2
                  | Some b \<Rightarrow> Returned (s2\<lparr>btnScan := Some (b\<lparr>display := ''none''\<rparr>)\<rparr>))))"

text \<open>
  \<^verbatim>\<open>capturePhoto()\<close>: the guard, then the drawing of the frame and the \<^verbatim>\<open>toBlob\<close> call
  inside \<^verbatim>\<open>try\<close>. \<open>drawn\<close> says that the drawing went through without an exception.
  The off-screen canvas is not part of the page state: nothing else reads it.
\<close>

definition capturePhoto :: "bool \<Rightarrow> state \<Rightarrow> state" where
  "capturePhoto drawn s =
     (if cameraStream s = None \<or> cameraFeed s = None then s
      else if drawn then s\<lparr>trace := trace s @ [ToBlob]\<rparr>
      else console_error ''Capture error:''
             (alert ''Failed to capture photo. Check console for details.'' s))"

text \<open>Decimal digits of a number, as a template literal prints it.\<close>

function decimal :: "nat \<Rightarrow> string" where
  "decimal n =
     (if n < 10 then [char_of (48 + n)]
      else decimal (n div 10) @ [char_of (48 + n mod 10)])"
  by pat_completeness auto
termination
  by (relation "measure id") auto

declare decimal.simps [simp del]

definition capturedFile :: "nat \<Rightarrow> nat \<Rightarrow> js_file" where
  "capturedFile b timestamp =
     \<lparr>name = ''camera_capture_'' @ decimal timestamp @ ''.jpg'',
      mime = ''image/jpeg'',
      blob = b\<rparr>"

text \<open>
  The callback given to \<^verbatim>\<open>toBlob\<close>; \<open>b\<close> is the blob (\<open>None\<close> for \<^verbatim>\<open>null\<close>). This copy
  calls \<^verbatim>\<open>window.handleFile(capturedFile)\<close> with one argument, so \<^verbatim>\<open>autoClassify\<close>
  takes its default \<^verbatim>\<open>false\<close>.
\<close>

definition capturePhoto_blob :: "nat option \<Rightarrow> nat \<Rightarrow> state \<Rightarrow> outcome" where
  "capturePhoto_blob b timestamp s =
     (case b of
        None \<Rightarrow> Returned (alert ''Failed to create image file from capture.'' s)
      | Some bl \<Rightarrow>
          and_then (stopCamera s)
            (\<lambda>s1. case window_handleFile s1 of
                    Some h \<Rightarrow> call_handleFile h (capturedFile bl timestamp) False s1
                  | None \<Rightarrow>
                      Returned (alert
                        ''Error: Classification logic not loaded. Cannot process image.'' s1)))"

subsection \<open>camera.js (the copy in src/unnamed/part_000)\<close>

text \<open>This copy tests the interface elements before writing to them.\<close>

definition stopCamera_part0 :: "state \<Rightarrow> state" where
  "stopCamera_part0 s =
     (let s1 = stopCamera_tracks s in
      s1\<lparr>cameraFeed := map_option (\<lambda>v. v\<lparr>srcObject := None\<rparr>) (cameraFeed s1),
         cameraInterface := map_option (\<lambda>e. e\<lparr>display := ''none''\<rparr>) (cameraInterface s1),
         dropzone := map_option (\<lambda>e. e\<lparr>display := ''flex''\<rparr>) (dropzone s1),
         btnScan := map_option (\<lambda>e. e\<lparr>display := ''block''\<rparr>) (btnScan s1)\<rparr>)"

definition startCamera_catch_part0 :: "state \<Rightarrow> state" where
  "startCamera_catch_part0 s =
     stopCamera_part0 (console_error ''Camera error:''
       (alert ''Unable to access camera. Please check permissions.'' s))"

definition startCamera_stream_part0 :: "media_stream option \<Rightarrow> state \<Rightarrow> state" where
  "startCamera_stream_part0 r s =
     (case cameraFeed s of
        None \<Rightarrow> s
      | Some v \<Rightarrow>
          (case r of
             None \<Rightarrow> startCamera_catch_part0 s
           | Some st \<Rightarrow>
               s\<lparr>cameraStream := Some st,
                 live := live s \<union> set st,
                 cameraFeed := Some (v\<lparr>srcObject := Some st\<rparr>),
                 trace := trace s @ [Play]\<rparr>))"

definition startCamera_played_part0 :: "bool \<Rightarrow> state \<Rightarrow> state" where
  "startCamera_played_part0 ok s =
     (if cameraFeed s = None then s
      else if \<not> ok then startCamera_catch_part0 s
      else s\<lparr>cameraInterface := map_option (\<lambda>e. e\<lparr>display := ''flex''\<rparr>) (cameraInterface s),
             dropzone := map_option (\<lambda>e. e\<lparr>display := ''none''\<rparr>) (dropzone s),
             btnScan := map_option (\<lambda>e. e\<lparr>display := ''none''\<rparr>) (btnScan s)\<rparr>)"

text \<open>This copy calls \<^verbatim>\<open>window.handleFile(capturedFile, true)\<close>.\<close>

definition capturePhoto_blob_part0 :: "nat option \<Rightarrow> nat \<Rightarrow> state \<Rightarrow> outcome" where
  "capturePhoto_blob_part0 b timestamp s =
     (case b of
        None \<Rightarrow> Returned (alert ''Failed to create image file from capture.'' s)
      | Some bl \<Rightarrow>
          (let s1 = stopCamera_part0 s in
           case window_handleFile s1 of
             Some h \<Rightarrow> call_handleFile h (capturedFile bl timestamp) True s1
           | None \<Rightarrow>
               Returned (alert
                 ''Error: Classification logic not loaded. Cannot process image.'' s1)))"

subsection \<open>The interface modes of the specification\<close>

datatype ui_mode = Empty | PreviewReady | CameraActive | ResultShown

text \<open>
  The mode follows the specification's words (section 4.4), read off the values the
  scripts write: the result view is shown once \<^verbatim>\<open>displayResults\<close> has set the results
  panel to \<^verbatim>\<open>flex\<close>; the camera is active once \<^verbatim>\<open>startCamera\<close> has set the camera
  interface to \<^verbatim>\<open>flex\<close>; a preview is ready while the preview element carries the
  class \<^verbatim>\<open>active\<close>; otherwise the page is empty.
\<close>

definition has_display :: "string \<Rightarrow> element option \<Rightarrow> bool" where
  "has_display d e = (case e of None \<Rightarrow> False | Some x \<Rightarrow> display x = d)"

definition preview_active :: "state \<Rightarrow> bool" where
  "preview_active s = (case preview s of None \<Rightarrow> False | Some p \<Rightarrow> ''active'' \<in> set (classList p))"

definition uiMode :: "state \<Rightarrow> ui_mode" where
  "uiMode s =
     (if has_display ''flex'' (resultsPanel s) then ResultShown
      else if has_display ''flex'' (cameraInterface s) then CameraActive
      else if preview_active s then PreviewReady
      else Empty)"

subsection \<open>A concrete page, files and payloads for the examples\<close>

definition blank :: element where
  "blank = \<lparr>display = [], disabled = False, textContent = [], classList = [],
            backgroundImage = [], aria_hidden = None, srcObject = None\<rparr>"

text \<open>
  The page after both scripts of \<^verbatim>\<open>src/static/\<close> have loaded: every element exists,
  no file is selected, no stream is held, the submit button is disabled.
\<close>

definition page0 :: state where
  "page0 =
     \<lparr>selectedFile = None, cameraStream = None, window_handleFile = Some Upload_static,
      submitBtn = Some (blank\<lparr>disabled := True\<rparr>),
      spinner = Some (blank\<lparr>display := ''none''\<rparr>),
      buttonText = Some (blank\<lparr>textContent := ''Classify Plastic''\<rparr>),
      preview = Some blank,
      dropzone = Some blank,
      dropzoneText = Some (blank\<lparr>textContent := ''Drop an image here''\<rparr>),
      uploadForm = Some (blank\<lparr>display := ''block''\<rparr>),
      resultsPanel = Some (blank\<lparr>display := ''none''\<rparr>),
      predictionText = Some blank,
      cameraFeed = Some blank,
      cameraInterface = Some blank,
      btnScan = Some blank,
      live = {}, trace = [], callbacks = []\<rparr>"

definition photo :: js_file where
  "photo = \<lparr>name = ''PHOTO.PNG'', mime = ''image/png'', blob = 1\<rparr>"

definition doc :: js_file where
  "doc = \<lparr>name = ''doc.pdf'', mime = ''application/pdf'', blob = 2\<rparr>"

definition jpeg_named :: js_file where
  "jpeg_named = \<lparr>name = ''jpeg'', mime = [], blob = 3\<rparr>"

text \<open>The page once \<^verbatim>\<open>PHOTO.PNG\<close> has been picked and its preview applied.\<close>

definition preview_ready :: state where
  "preview_ready = handleFile_onload photo False ''data:image/png;base64,AAAA'' (handleFile photo False page0)"

definition hdpe :: payload where
  "hdpe = \<lparr>success = True, prediction = ''HDPE'', error = None\<rparr>"

definition unavailable :: payload where
  "unavailable = \<lparr>success = False, prediction = [], error = Some ''model unavailable''\<rparr>"

text \<open>The page once the camera has been started and streams one video track.\<close>

definition camera_on :: state where
  "camera_on =
     state_of (startCamera_played True (state_of (startCamera_stream (Some [1]) (startCamera page0))))"

text \<open>
  The scan button clicked twice before the device answers: both requests are granted,
  the first with track 1 and the second with track 2.
\<close>

definition double_start :: state where
  "double_start =
     state_of (startCamera_played True (state_of (startCamera_stream (Some [2])
       (state_of (startCamera_played True (state_of (startCamera_stream (Some [1])
         (startCamera (startCamera page0)))))))))"

subsection \<open>Notions used in the statements\<close>

text \<open>The effects a run added: the trace of the later state without that of the earlier.\<close>

definition effects_since :: "state \<Rightarrow> state \<Rightarrow> effect list" where
  "effects_since s s' = drop (length (trace s)) (trace s')"

text \<open>
  Success in the specification's words: the transport succeeded and the payload
  indicates success.
\<close>

definition succeeded :: "fetch_result \<Rightarrow> bool" where
  "succeeded r = (case r of Response ok (Json data) \<Rightarrow> ok \<and> success data | _ \<Rightarrow> False)"

text \<open>Every running track belongs to the stream whose handle the module holds.\<close>

definition session_inv :: "state \<Rightarrow> bool" where
  "session_inv s = (live s \<subseteq> (case cameraStream s of None \<Rightarrow> {} | Some st \<Rightarrow> set st))"

subsection \<open>Helper lemmas\<close>

lemma js_split_nonempty: "js_split d cs \<noteq> []"
  by (induction cs) (auto split: list.splits)

lemma js_split_append: "js_split d (xs @ d # ys) = js_split d xs @ js_split d ys"
proof (induction xs)
  case Nil
  show ?case by simp
next
  case (Cons c xs)
  obtain w ws where w: "js_split d xs = w # ws"
    using js_split_nonempty [of d xs] by (cases "js_split d xs") auto
  show ?case
    using Cons w by simp
qed

lemma js_split_no_separator: "d \<notin> set cs \<Longrightarrow> js_split d cs = [cs]"
  by (induction cs) auto

lemma last_js_split_after: "d \<notin> set e \<Longrightarrow> last (js_split d (pre @ d # e)) = e"
  by (simp add: js_split_append js_split_no_separator)

text \<open>
  The extension \<^verbatim>\<open>handleFile\<close> computes is the lower-cased text after the last dot, and
  the lower-cased name itself when the name has no dot.
\<close>

lemma fileExtension_after_last_dot:
  "CHR ''.'' \<notin> set e \<Longrightarrow> fileExtension (pre @ CHR ''.'' # e) = toLowerCase e"
  by (simp add: fileExtension_def last_js_split_after)

lemma fileExtension_no_dot:
  "CHR ''.'' \<notin> set e \<Longrightarrow> fileExtension e = toLowerCase e"
  by (simp add: fileExtension_def js_split_no_separator)

lemma handleFile_accepts:
  "fileExtension (name f) \<in> set allowedExtensions \<Longrightarrow>
   handleFile f a s =
     s\<lparr>selectedFile := Some f, callbacks := callbacks s @ [OnLoad f a],
       trace := trace s @ [ReadAsDataURL f]\<rparr>"
  by (simp add: handleFile_def)

lemma handleFile_part0_accepts:
  "fileExtension (name f) \<in> set allowedExtensions \<Longrightarrow>
   selectedFile (state_of (handleFile_part0 f s)) = Some f"
  by (simp add: handleFile_part0_def Let_def split: option.splits)

lemma uiMode_trace [simp]: "uiMode (s\<lparr>trace := t\<rparr>) = uiMode s"
  by (simp add: uiMode_def preview_active_def)

lemma uiMode_alert [simp]: "uiMode (alert m s) = uiMode s"
  by (simp add: alert_def)

lemma uiMode_console_error [simp]: "uiMode (console_error m s) = uiMode s"
  by (simp add: console_error_def)

lemma uiMode_showLoading [simp]: "uiMode (showLoading s) = uiMode s"
  by (simp add: showLoading_def uiMode_def preview_active_def split: option.splits)

lemma uiMode_hideLoading [simp]: "uiMode (hideLoading s) = uiMode s"
  by (simp add: hideLoading_def uiMode_def preview_active_def split: option.splits)

lemma page0_facts:
  "selectedFile page0 = None" "cameraStream page0 = None" "trace page0 = []"
  "callbacks page0 = []" "live page0 = {}" "uiMode page0 = Empty"
  by (simp_all add: page0_def uiMode_def has_display_def preview_active_def blank_def)

section \<open>Claims\<close>

subsection \<open>Intake: validation of the file name\<close>

text \<open>
  C3. For every file whose extension (the text after the last dot, lower-cased) is not
  one of png, jpg, jpeg, \<^verbatim>\<open>handleFile\<close> raises the invalid-file-type alert and changes
  nothing else: the state it returns is the state it was given with that one alert added
  to the trace, in both copies of \<^verbatim>\<open>upload.js\<close>. In particular the selected file, the
  preview, the submit button, the registered load handlers and the interface mode are
  as before.
\<close>

theorem handleFile_invalid_extension:
  assumes "fileExtension (name f) \<notin> set allowedExtensions"
  shows "handleFile f a s =
           s\<lparr>trace := trace s @ [Alert ''Invalid file type. Please upload a PNG, JPG, or JPEG image.'']\<rparr> \<and>
         handleFile_part0 f s = Returned (handleFile f a s) \<and>
         selectedFile (handleFile f a s) = selectedFile s \<and>
         preview (handleFile f a s) = preview s \<and>
         submitBtn (handleFile f a s) = submitBtn s \<and>
         callbacks (handleFile f a s) = callbacks s \<and>
         uiMode (handleFile f a s) = uiMode s"
  using assms by (simp add: handleFile_def handleFile_part0_def alert_def)

theorem handleFile_invalid_extension_witness:
  "fileExtension (name doc) = ''pdf'' \<and> ''pdf'' \<notin> set allowedExtensions \<and>
   handleFile doc False page0 =
     page0\<lparr>trace := [Alert ''Invalid file type. Please upload a PNG, JPG, or JPEG image.'']\<rparr> \<and>
   handleFile_part0 doc page0 = Returned (handleFile doc False page0) \<and>
   uiMode (handleFile doc False page0) = Empty"
proof -
  have e: "fileExtension (name doc) = ''pdf''"
    unfolding doc_def by code_simp
  have n: "''pdf'' \<notin> set allowedExtensions"
    by (simp add: allowedExtensions_def)
  have h: "fileExtension (name doc) \<notin> set allowedExtensions"
    using e n by simp
  from handleFile_invalid_extension [OF h, of False page0] e n page0_facts show ?thesis
    by simp
qed

text \<open>
  C10. The extension is matched on the lower-cased text after the last dot, so a name
  such as \<^verbatim>\<open>PHOTO.PNG\<close> is accepted; a name without a dot is its own extension, so a
  file named exactly \<^verbatim>\<open>png\<close>, \<^verbatim>\<open>jpg\<close> or \<^verbatim>\<open>jpeg\<close> passes the validation and becomes the
  selected file. Both copies of \<^verbatim>\<open>upload.js\<close> agree.
\<close>

theorem handleFile_extension_rule:
  assumes "CHR ''.'' \<notin> set e" and "toLowerCase e \<in> set allowedExtensions"
  shows "fileExtension (pre @ CHR ''.'' # e) = toLowerCase e \<and>
         fileExtension e = toLowerCase e \<and>
         (\<forall>f a s. name f = pre @ CHR ''.'' # e \<or> name f = e \<longrightarrow>
            selectedFile (handleFile f a s) = Some f \<and>
            selectedFile (state_of (handleFile_part0 f s)) = Some f)"
proof -
  have a: "fileExtension (pre @ CHR ''.'' # e) = toLowerCase e"
    using assms(1) by (rule fileExtension_after_last_dot)
  have b: "fileExtension e = toLowerCase e"
    using assms(1) by (rule fileExtension_no_dot)
  have c: "selectedFile (handleFile f a s) = Some f \<and>
           selectedFile (state_of (handleFile_part0 f s)) = Some f"
    if "name f = pre @ CHR ''.'' # e \<or> name f = e" for f a s
  proof -
    have "fileExtension (name f) \<in> set allowedExtensions"
      using that a b assms(2) by auto
    then show ?thesis
      by (simp add: handleFile_accepts handleFile_part0_accepts)
  qed
  show ?thesis using a b c by blast
qed

theorem handleFile_extension_rule_witness:
  "CHR ''.'' \<notin> set ''PNG'' \<and> toLowerCase ''PNG'' \<in> set allowedExtensions \<and>
   CHR ''.'' \<notin> set ''jpeg'' \<and> toLowerCase ''jpeg'' \<in> set allowedExtensions \<and>
   fileExtension ''PHOTO.PNG'' = ''png'' \<and>
   selectedFile (handleFile photo False page0) = Some photo \<and>
   selectedFile (state_of (handleFile_part0 photo page0)) = Some photo \<and>
   fileExtension ''jpeg'' = ''jpeg'' \<and>
   selectedFile (handleFile jpeg_named False page0) = Some jpeg_named \<and>
   selectedFile (state_of (handleFile_part0 jpeg_named page0)) = Some jpeg_named"
proof -
  have l: "toLowerCase ''PNG'' = ''png''" "toLowerCase ''jpeg'' = ''jpeg''"
    by code_simp+
  have h: "CHR ''.'' \<notin> set ''PNG''" "toLowerCase ''PNG'' \<in> set allowedExtensions"
    "CHR ''.'' \<notin> set ''jpeg''" "toLowerCase ''jpeg'' \<in> set allowedExtensions"
    by (simp_all add: l allowedExtensions_def)
  have n: "name photo = ''PHOTO'' @ CHR ''.'' # ''PNG''" "name jpeg_named = ''jpeg''"
    by (simp_all add: photo_def jpeg_named_def)
  note p = handleFile_extension_rule [OF h(1) h(2), of "''PHOTO''"]
  note j = handleFile_extension_rule [OF h(3) h(4), of "[]"]
  have 1: "fileExtension ''PHOTO.PNG'' = ''png''"
    using p l by simp
  have 2: "selectedFile (handleFile photo False page0) = Some photo"
    "selectedFile (state_of (handleFile_part0 photo page0)) = Some photo"
    using p n(1) by blast+
  have 3: "fileExtension ''jpeg'' = ''jpeg''"
    using j l by simp
  have 4: "selectedFile (handleFile jpeg_named False page0) = Some jpeg_named"
    "selectedFile (state_of (handleFile_part0 jpeg_named page0)) = Some jpeg_named"
    using j n(2) by blast+
  show ?thesis
    by (intro conjI h 1 2 3 4)
qed

subsection \<open>Classification request\<close>

text \<open>
  C5. Whenever \<^verbatim>\<open>classifyImage\<close> is invoked while no file is selected, it raises the
  alert asking for an image and returns: the trace grows by that alert (after the
  \<^verbatim>\<open>preventDefault\<close> of a submit event) and nothing else changes. No request is sent,
  the busy indicator is not switched on, and the submit button, its spinner and its
  text are as before. The older copy does the same when called with the submit event
  (its only caller); called without an event it throws before anything happens.
\<close>

theorem classifyImage_no_image:
  assumes "selectedFile s = None"
  shows "classifyImage e s =
           s\<lparr>trace := trace s @ (case e of None \<Rightarrow> [] | Some _ \<Rightarrow> [PreventDefault])
                       @ [Alert ''Please select an image first.'']\<rparr> \<and>
         classifyImage_part0 (Some ev) s = Returned (classifyImage (Some ev) s) \<and>
         classifyImage_part0 None s = Threw s \<and>
         (\<forall>f. Fetch f \<notin> set (effects_since s (classifyImage e s))) \<and>
         LoadingOn \<notin> set (effects_since s (classifyImage e s)) \<and>
         submitBtn (classifyImage e s) = submitBtn s \<and>
         spinner (classifyImage e s) = spinner s \<and>
         buttonText (classifyImage e s) = buttonText s \<and>
         uiMode (classifyImage e s) = uiMode s"
  using assms
  by (cases e) (auto simp add: classifyImage_def classifyImage_part0_def alert_def effects_since_def)

theorem classifyImage_no_image_witness:
  "selectedFile page0 = None \<and>
   classifyImage (Some SubmitEvent) page0 =
     page0\<lparr>trace := [PreventDefault, Alert ''Please select an image first.'']\<rparr> \<and>
   classifyImage None page0 = page0\<lparr>trace := [Alert ''Please select an image first.'']\<rparr>"
proof -
  have h: "selectedFile page0 = None"
    by (rule page0_facts)
  from classifyImage_no_image [OF h, of "Some SubmitEvent"] classifyImage_no_image [OF h, of None]
    h page0_facts(3)
  show ?thesis by simp
qed

lemma classifyImage_busy:
  assumes "selectedFile s = Some f" "submitBtn s = Some b" "spinner s = Some sp" "buttonText s = Some bt"
  shows "submitBtn (classifyImage e s) = Some (b\<lparr>disabled := True\<rparr>)"
    and "spinner (classifyImage e s) = Some (sp\<lparr>display := ''inline-block''\<rparr>)"
    and "buttonText (classifyImage e s) = Some (bt\<lparr>textContent := ''Classifying...''\<rparr>)"
    and "effects_since s (classifyImage e s) =
           (case e of None \<Rightarrow> [] | Some _ \<Rightarrow> [PreventDefault]) @ [LoadingOn, Fetch f]"
  using assms
  by (cases e; simp add: classifyImage_def showLoading_def effects_since_def Let_def)+

lemma classifyImage_response_button:
  "submitBtn (classifyImage_response r s) = submitBtn s"
  "spinner (classifyImage_response r s) = spinner s"
  "buttonText (classifyImage_response r s) = buttonText s"
  by (simp_all add: classifyImage_response_def classifyImage_catch_def displayResults_def
      alert_def console_error_def split: fetch_result.splits body.splits)

lemma classifyImage_response_trace:
  "effects_since s (classifyImage_response r s) =
     (case r of
        NetworkError \<Rightarrow>
          [Alert ''A network error occurred during classification. Check console.'',
           ConsoleError ''Fetch error:'']
      | Response ok NotJson \<Rightarrow>
          [Alert ''A network error occurred during classification. Check console.'',
           ConsoleError ''Fetch error:'']
      | Response ok JsonNull \<Rightarrow>
          [Alert ''A network error occurred during classification. Check console.'',
           ConsoleError ''Fetch error:'']
      | Response ok (Json data) \<Rightarrow>
          if ok \<and> success data then []
          else [Alert (''Classification Error: '' @ error_or_unknown data),
                ConsoleError ''Prediction failed:''])"
  by (simp add: classifyImage_response_def classifyImage_catch_def displayResults_def
      alert_def console_error_def effects_since_def split: fetch_result.splits body.splits)

lemma trace_classifyImage_response:
  "trace (classifyImage_response r s) = trace s @ effects_since s (classifyImage_response r s)"
  by (simp add: classifyImage_response_def classifyImage_catch_def displayResults_def
      alert_def console_error_def effects_since_def split: fetch_result.splits body.splits)

lemma LoadingOff_not_in_response:
  "LoadingOff \<notin> set (effects_since s (classifyImage_response r s))"
  by (simp add: classifyImage_response_trace split: fetch_result.splits body.splits)

lemma classifyImage_settled_button:
  assumes "submitBtn s = Some b" "spinner s = Some sp" "buttonText s = Some bt"
  shows "submitBtn (classifyImage_settled r s) = Some (b\<lparr>disabled := False\<rparr>)"
    and "spinner (classifyImage_settled r s) = Some (sp\<lparr>display := ''none''\<rparr>)"
    and "buttonText (classifyImage_settled r s) = Some (bt\<lparr>textContent := ''Classify Plastic''\<rparr>)"
    and "effects_since s (classifyImage_settled r s) =
           effects_since s (classifyImage_response r s) @ [LoadingOff]"
proof -
  let ?m = "classifyImage_response r s"
  have b: "submitBtn ?m = Some b" "spinner ?m = Some sp" "buttonText ?m = Some bt"
    using assms by (simp_all add: classifyImage_response_button)
  show "submitBtn (classifyImage_settled r s) = Some (b\<lparr>disabled := False\<rparr>)"
    and "spinner (classifyImage_settled r s) = Some (sp\<lparr>display := ''none''\<rparr>)"
    and "buttonText (classifyImage_settled r s) = Some (bt\<lparr>textContent := ''Classify Plastic''\<rparr>)"
    using b by (simp_all add: classifyImage_settled_def hideLoading_def)
  have "trace (classifyImage_settled r s) = trace ?m @ [LoadingOff]"
    using b by (simp add: classifyImage_settled_def hideLoading_def)
  then have "trace (classifyImage_settled r s) = trace s @ (effects_since s ?m @ [LoadingOff])"
    using trace_classifyImage_response [of r s] by simp
  then show "effects_since s (classifyImage_settled r s) = effects_since s ?m @ [LoadingOff]"
    by (simp add: effects_since_def)
qed

lemma classifyImage_settled_any_state:
  assumes "submitBtn s = Some b"
  shows "submitBtn (classifyImage_settled r s) = Some (b\<lparr>disabled := False\<rparr>)"
    and "count_list (effects_since s (classifyImage_settled r s)) LoadingOff = 1"
    and "last (trace (classifyImage_settled r s)) = LoadingOff"
proof -
  let ?m = "classifyImage_response r s"
  have b: "submitBtn ?m = Some b"
    using assms by (simp add: classifyImage_response_button)
  show "submitBtn (classifyImage_settled r s) = Some (b\<lparr>disabled := False\<rparr>)"
    using b by (simp add: classifyImage_settled_def hideLoading_def)
  have t: "trace (classifyImage_settled r s) = trace ?m @ [LoadingOff]"
    using b by (simp add: classifyImage_settled_def hideLoading_def)
  then show "last (trace (classifyImage_settled r s)) = LoadingOff"
    by simp
  have "trace (classifyImage_settled r s) = trace s @ (effects_since s ?m @ [LoadingOff])"
    using t trace_classifyImage_response [of r s] by simp
  then have "effects_since s (classifyImage_settled r s) = effects_since s ?m @ [LoadingOff]"
    by (simp add: effects_since_def)
  then show "count_list (effects_since s (classifyImage_settled r s)) LoadingOff = 1"
    using LoadingOff_not_in_response [of s r] by (simp add: count_list_0_iff)
qed

text \<open>
  C4. For every invocation of \<^verbatim>\<open>classifyImage\<close> with a selected file (and the submit
  button, its spinner and its text present), the busy indicator is shown at the start:
  button disabled, spinner \<^verbatim>\<open>inline-block\<close>, text \<^verbatim>\<open>Classifying...\<close>. When the request
  settles, whatever the outcome (a response with a successful payload, a response with
  a failing payload or a status that is not ok, a body that is not JSON or is
  \<^verbatim>\<open>null\<close>, a rejected \<^verbatim>\<open>fetch\<close>), the indicator is reverted: button enabled, spinner
  \<^verbatim>\<open>none\<close>, text \<^verbatim>\<open>Classify Plastic\<close>. The revert happens exactly once, and it is the
  last thing the continuation does; this holds in whatever state of the page the
  request settles, as long as the button exists.
\<close>

theorem classifyImage_reverts_busy_indicator:
  assumes "selectedFile s = Some f"
    and "submitBtn s = Some b" and "spinner s = Some sp" and "buttonText s = Some bt"
  shows "submitBtn (classifyImage e s) = Some (b\<lparr>disabled := True\<rparr>) \<and>
         spinner (classifyImage e s) = Some (sp\<lparr>display := ''inline-block''\<rparr>) \<and>
         buttonText (classifyImage e s) = Some (bt\<lparr>textContent := ''Classifying...''\<rparr>) \<and>
         (\<forall>r. submitBtn (classifyImage_settled r (classifyImage e s)) = Some (b\<lparr>disabled := False\<rparr>) \<and>
              spinner (classifyImage_settled r (classifyImage e s)) = Some (sp\<lparr>display := ''none''\<rparr>) \<and>
              buttonText (classifyImage_settled r (classifyImage e s))
                = Some (bt\<lparr>textContent := ''Classify Plastic''\<rparr>) \<and>
              count_list (effects_since (classifyImage e s)
                            (classifyImage_settled r (classifyImage e s))) LoadingOff = 1 \<and>
              last (trace (classifyImage_settled r (classifyImage e s))) = LoadingOff) \<and>
         (\<forall>r s1 b1. submitBtn s1 = Some b1 \<longrightarrow>
              submitBtn (classifyImage_settled r s1) = Some (b1\<lparr>disabled := False\<rparr>) \<and>
              count_list (effects_since s1 (classifyImage_settled r s1)) LoadingOff = 1 \<and>
              last (trace (classifyImage_settled r s1)) = LoadingOff)"
proof -
  let ?s1 = "classifyImage e s"
  note busy = classifyImage_busy [OF assms, of e]
  have idle: "submitBtn (classifyImage_settled r ?s1) = Some (b\<lparr>disabled := False\<rparr>) \<and>
              spinner (classifyImage_settled r ?s1) = Some (sp\<lparr>display := ''none''\<rparr>) \<and>
              buttonText (classifyImage_settled r ?s1) = Some (bt\<lparr>textContent := ''Classify Plastic''\<rparr>) \<and>
              count_list (effects_since ?s1 (classifyImage_settled r ?s1)) LoadingOff = 1 \<and>
              last (trace (classifyImage_settled r ?s1)) = LoadingOff" for r
  proof -
    note st = classifyImage_settled_button [OF busy(1) busy(2) busy(3), of r]
    note an = classifyImage_settled_any_state [OF busy(1), of r]
    show ?thesis using st an by simp
  qed
  have any: "\<forall>r s1 b1. submitBtn s1 = Some b1 \<longrightarrow>
              submitBtn (classifyImage_settled r s1) = Some (b1\<lparr>disabled := False\<rparr>) \<and>
              count_list (effects_since s1 (classifyImage_settled r s1)) LoadingOff = 1 \<and>
              last (trace (classifyImage_settled r s1)) = LoadingOff"
    by (simp add: classifyImage_settled_any_state)
  from idle have idle_all:
    "\<forall>r. submitBtn (classifyImage_settled r ?s1) = Some (b\<lparr>disabled := False\<rparr>) \<and>
              spinner (classifyImage_settled r ?s1) = Some (sp\<lparr>display := ''none''\<rparr>) \<and>
              buttonText (classifyImage_settled r ?s1) = Some (bt\<lparr>textContent := ''Classify Plastic''\<rparr>) \<and>
              count_list (effects_since ?s1 (classifyImage_settled r ?s1)) LoadingOff = 1 \<and>
              last (trace (classifyImage_settled r ?s1)) = LoadingOff"
    by (rule allI)
  show ?thesis
    by (intro conjI busy(1) busy(2) busy(3) idle_all any)
qed

lemma photo_allowed: "fileExtension (name photo) \<in> set allowedExtensions"
proof -
  have "fileExtension (name photo) = ''png''"
    unfolding photo_def by code_simp
  then show ?thesis by (simp add: allowedExtensions_def)
qed

lemma preview_ready_facts:
  "selectedFile preview_ready = Some photo"
  "submitBtn preview_ready = Some blank"
  "spinner preview_ready = Some (blank\<lparr>display := ''none''\<rparr>)"
  "buttonText preview_ready = Some (blank\<lparr>textContent := ''Classify Plastic''\<rparr>)"
  "resultsPanel preview_ready = Some (blank\<lparr>display := ''none''\<rparr>)"
  "predictionText preview_ready = Some blank"
  "trace preview_ready = [ReadAsDataURL photo]"
  "cameraStream preview_ready = None"
  "live preview_ready = {}"
  by (simp_all add: preview_ready_def handleFile_accepts [OF photo_allowed] handleFile_onload_def
      handleFile_preview_def page0_def blank_def Let_def)

lemma preview_ready_mode: "uiMode preview_ready = PreviewReady"
  by (simp add: preview_ready_def handleFile_accepts [OF photo_allowed] handleFile_onload_def
      handleFile_preview_def page0_def blank_def Let_def uiMode_def has_display_def
      preview_active_def classList_add_def)

theorem classifyImage_reverts_busy_indicator_witness:
  "selectedFile preview_ready = Some photo \<and>
   submitBtn preview_ready = Some blank \<and>
   spinner preview_ready = Some (blank\<lparr>display := ''none''\<rparr>) \<and>
   buttonText preview_ready = Some (blank\<lparr>textContent := ''Classify Plastic''\<rparr>) \<and>
   submitBtn (classifyImage None preview_ready) = Some (blank\<lparr>disabled := True\<rparr>) \<and>
   submitBtn (classifyImage_settled NetworkError (classifyImage None preview_ready))
     = Some (blank\<lparr>disabled := False\<rparr>) \<and>
   count_list (effects_since (classifyImage None preview_ready)
     (classifyImage_settled (Response True (Json hdpe)) (classifyImage None preview_ready))) LoadingOff = 1 \<and>
   count_list (effects_since preview_ready
     (classifyImage_settled (Response False NotJson) preview_ready)) LoadingOff = 1"
proof -
  note w = classifyImage_reverts_busy_indicator
    [OF preview_ready_facts(1) preview_ready_facts(2) preview_ready_facts(3) preview_ready_facts(4),
     of None]
  have 1: "submitBtn (classifyImage None preview_ready) = Some (blank\<lparr>disabled := True\<rparr>)"
    using w by blast
  have 2: "submitBtn (classifyImage_settled NetworkError (classifyImage None preview_ready))
     = Some (blank\<lparr>disabled := False\<rparr>)"
    using w by blast
  have 3: "count_list (effects_since (classifyImage None preview_ready)
     (classifyImage_settled (Response True (Json hdpe)) (classifyImage None preview_ready))) LoadingOff = 1"
    using w by blast
  have 4: "count_list (effects_since preview_ready
     (classifyImage_settled (Response False NotJson) preview_ready)) LoadingOff = 1"
    using w preview_ready_facts(2) by blast
  show ?thesis
    by (intro conjI preview_ready_facts(1) preview_ready_facts(2) preview_ready_facts(3)
        preview_ready_facts(4) 1 2 3 4)
qed

lemma effects_since_settled:
  "effects_since s (classifyImage_settled r s) =
     effects_since s (classifyImage_response r s) @ (case submitBtn s of None \<Rightarrow> [] | Some _ \<Rightarrow> [LoadingOff])"
proof -
  let ?m = "classifyImage_response r s"
  have "trace (classifyImage_settled r s) =
          trace ?m @ (case submitBtn s of None \<Rightarrow> [] | Some _ \<Rightarrow> [LoadingOff])"
    by (simp add: classifyImage_settled_def hideLoading_def classifyImage_response_button
        split: option.splits)
  then have "trace (classifyImage_settled r s) =
          trace s @ (effects_since s ?m @ (case submitBtn s of None \<Rightarrow> [] | Some _ \<Rightarrow> [LoadingOff]))"
    using trace_classifyImage_response [of r s] by simp
  then show ?thesis
    by (simp add: effects_since_def)
qed

lemma hideLoading_fields [simp]:
  "preview (hideLoading s) = preview s"
  "resultsPanel (hideLoading s) = resultsPanel s"
  "uploadForm (hideLoading s) = uploadForm s"
  "predictionText (hideLoading s) = predictionText s"
  "selectedFile (hideLoading s) = selectedFile s"
  by (simp_all add: hideLoading_def split: option.splits)

lemma preview_active_hideLoading [simp]: "preview_active (hideLoading s) = preview_active s"
  by (simp add: preview_active_def)

lemma succeeded_cases:
  "succeeded r \<longleftrightarrow> (\<exists>data. r = Response True (Json data) \<and> success data)"
  by (auto simp add: succeeded_def split: fetch_result.splits body.splits)

lemma settled_success:
  assumes "success data"
  shows "classifyImage_settled (Response True (Json data)) s = hideLoading (displayResults data s)"
  using assms by (simp add: classifyImage_settled_def classifyImage_response_def)

lemma displayResults_shown:
  "resultsPanel s \<noteq> None \<Longrightarrow> uiMode (displayResults data s) = ResultShown"
  by (auto simp add: displayResults_def uiMode_def has_display_def)

lemma displayResults_preview_cleared: "\<not> preview_active (displayResults data s)"
  by (simp add: displayResults_def preview_active_def classList_remove_def split: option.splits)

lemma response_failure_fields:
  assumes "\<not> succeeded r"
  shows "preview (classifyImage_response r s) = preview s"
    and "resultsPanel (classifyImage_response r s) = resultsPanel s"
    and "uploadForm (classifyImage_response r s) = uploadForm s"
    and "predictionText (classifyImage_response r s) = predictionText s"
    and "uiMode (classifyImage_response r s) = uiMode s"
  using assms
  by (auto simp add: succeeded_def classifyImage_response_def classifyImage_catch_def alert_def
      console_error_def split: fetch_result.splits body.splits)

lemma response_failure_alert:
  assumes "\<not> succeeded r"
  shows "\<exists>m c. effects_since s (classifyImage_response r s) = [Alert m, ConsoleError c]"
  using assms
  by (auto simp add: classifyImage_response_trace succeeded_def split: fetch_result.splits body.splits)

lemma response_success_silent:
  assumes "succeeded r"
  shows "effects_since s (classifyImage_response r s) = []"
  using assms
  by (auto simp add: classifyImage_response_trace succeeded_def split: fetch_result.splits body.splits)

text \<open>
  C6. \<^verbatim>\<open>classifyImage\<close> reports success if and only if the response is ok and the
  payload indicates success: exactly then no alert is raised. In that case the
  continuation is \<^verbatim>\<open>displayResults\<close> followed by the revert of the busy indicator: the
  results panel is shown (mode ResultShown), the label takes the payload's prediction,
  and the preview is cleared. In every other settled case (failing payload, status
  that is not ok, body that is not JSON, rejected \<^verbatim>\<open>fetch\<close>) one alert is raised and
  logged, the mode and the preview, results panel, form and label are unchanged; when
  the body carries a non-empty error message, the alert contains it. No case sends
  another request.
\<close>

theorem classifyImage_reports_outcome:
  "(succeeded r \<longleftrightarrow> (\<forall>m. Alert m \<notin> set (effects_since s (classifyImage_settled r s)))) \<and>
   (\<forall>f. Fetch f \<notin> set (effects_since s (classifyImage_settled r s))) \<and>
   (succeeded r \<longrightarrow>
      (\<exists>data. r = Response True (Json data) \<and>
         classifyImage_settled r s = hideLoading (displayResults data s) \<and>
         (resultsPanel s \<noteq> None \<longrightarrow> uiMode (classifyImage_settled r s) = ResultShown) \<and>
         (\<forall>pt. predictionText s = Some pt \<longrightarrow>
            predictionText (classifyImage_settled r s) = Some (pt\<lparr>textContent := prediction data\<rparr>)) \<and>
         (\<forall>p. preview s = Some p \<longrightarrow>
            preview (classifyImage_settled r s) =
              Some (p\<lparr>backgroundImage := ''none'', aria_hidden := Some ''true'',
                      classList := classList_remove ''active'' (classList p)\<rparr>)) \<and>
         \<not> preview_active (classifyImage_settled r s))) \<and>
   (\<not> succeeded r \<longrightarrow>
      (\<exists>m c. effects_since s (classifyImage_response r s) = [Alert m, ConsoleError c]) \<and>
      uiMode (classifyImage_settled r s) = uiMode s \<and>
      preview (classifyImage_settled r s) = preview s \<and>
      resultsPanel (classifyImage_settled r s) = resultsPanel s \<and>
      uploadForm (classifyImage_settled r s) = uploadForm s \<and>
      predictionText (classifyImage_settled r s) = predictionText s) \<and>
   (\<forall>ok data m. r = Response ok (Json data) \<and> \<not> (ok \<and> success data) \<and> error data = Some m \<and> m \<noteq> [] \<longrightarrow>
      Alert (''Classification Error: '' @ m) \<in> set (effects_since s (classifyImage_settled r s)))"
proof -
  let ?s2 = "classifyImage_settled r s"
  have no_alert_off: "Alert m \<notin> set (case submitBtn s of None \<Rightarrow> [] | Some _ \<Rightarrow> [LoadingOff])" for m
    by (simp split: option.splits)
  have iff: "succeeded r \<longleftrightarrow> (\<forall>m. Alert m \<notin> set (effects_since s ?s2))"
  proof (cases "succeeded r")
    case True
    then show ?thesis
      using no_alert_off by (simp add: effects_since_settled response_success_silent)
  next
    case False
    then obtain m c where "effects_since s (classifyImage_response r s) = [Alert m, ConsoleError c]"
      using response_failure_alert by blast
    then have "Alert m \<in> set (effects_since s ?s2)"
      by (simp add: effects_since_settled)
    with False show ?thesis by blast
  qed
  have nofetch: "Fetch f \<notin> set (effects_since s ?s2)" for f
    by (simp add: effects_since_settled classifyImage_response_trace
        split: fetch_result.splits body.splits option.splits)
  have succ: "\<exists>data. r = Response True (Json data) \<and>
         ?s2 = hideLoading (displayResults data s) \<and>
         (resultsPanel s \<noteq> None \<longrightarrow> uiMode ?s2 = ResultShown) \<and>
         (\<forall>pt. predictionText s = Some pt \<longrightarrow>
            predictionText ?s2 = Some (pt\<lparr>textContent := prediction data\<rparr>)) \<and>
         (\<forall>p. preview s = Some p \<longrightarrow>
            preview ?s2 =
              Some (p\<lparr>backgroundImage := ''none'', aria_hidden := Some ''true'',
                      classList := classList_remove ''active'' (classList p)\<rparr>)) \<and>
         \<not> preview_active ?s2" if "succeeded r"
  proof -
    from that have "\<exists>data. r = Response True (Json data) \<and> success data"
      by (simp add: succeeded_cases)
    then obtain data where r: "r = Response True (Json data)" and d: "success data"
      by blast
    have e: "?s2 = hideLoading (displayResults data s)"
      using r d by (simp add: settled_success)
    have 1: "resultsPanel s \<noteq> None \<longrightarrow> uiMode ?s2 = ResultShown"
      by (simp add: e displayResults_shown)
    have 2: "\<forall>pt. predictionText s = Some pt \<longrightarrow>
            predictionText ?s2 = Some (pt\<lparr>textContent := prediction data\<rparr>)"
      by (simp add: e displayResults_def)
    have 3: "\<forall>p. preview s = Some p \<longrightarrow>
            preview ?s2 =
              Some (p\<lparr>backgroundImage := ''none'', aria_hidden := Some ''true'',
                      classList := classList_remove ''active'' (classList p)\<rparr>)"
      by (simp add: e displayResults_def)
    have 4: "\<not> preview_active ?s2"
      by (simp add: e displayResults_preview_cleared)
    show ?thesis
      by (rule exI [of _ data]) (intro conjI r e 1 2 3 4)
  qed
  have fail: "(\<exists>m c. effects_since s (classifyImage_response r s) = [Alert m, ConsoleError c]) \<and>
      uiMode ?s2 = uiMode s \<and> preview ?s2 = preview s \<and> resultsPanel ?s2 = resultsPanel s \<and>
      uploadForm ?s2 = uploadForm s \<and> predictionText ?s2 = predictionText s" if "\<not> succeeded r"
    using response_failure_alert [OF that] response_failure_fields [OF that]
    by (simp add: classifyImage_settled_def)
  have msg: "Alert (''Classification Error: '' @ m) \<in> set (effects_since s ?s2)"
    if "r = Response ok (Json data) \<and> \<not> (ok \<and> success data) \<and> error data = Some m \<and> m \<noteq> []"
    for ok data m
    using that by (simp add: effects_since_settled classifyImage_response_trace error_or_unknown_def)
  show ?thesis
    apply (intro conjI allI impI)
    subgoal by (rule iff)
    subgoal by (rule nofetch)
    subgoal by (rule succ)
    subgoal using fail by blast
    subgoal using fail by blast
    subgoal using fail by blast
    subgoal using fail by blast
    subgoal using fail by blast
    subgoal using fail by blast
    subgoal by (rule msg)
    done
qed

lemma uiMode_classifyImage [simp]: "uiMode (classifyImage e s) = uiMode s"
  by (simp add: classifyImage_def Let_def split: option.splits)

lemma classify_started_facts:
  "resultsPanel (classifyImage None preview_ready) = Some (blank\<lparr>display := ''none''\<rparr>)"
  "predictionText (classifyImage None preview_ready) = Some blank"
  by (simp_all add: classifyImage_def preview_ready_facts showLoading_def Let_def)

lemma classify_started_mode: "uiMode (classifyImage None preview_ready) = PreviewReady"
  by (simp add: preview_ready_mode)

lemma payload_facts:
  "succeeded (Response True (Json hdpe))" "\<not> succeeded (Response True (Json unavailable))"
  "prediction hdpe = ''HDPE''" "error unavailable = Some ''model unavailable''"
  "\<not> success unavailable"
  by (simp_all add: succeeded_def hdpe_def unavailable_def)

theorem classifyImage_reports_outcome_witness:
  "succeeded (Response True (Json hdpe)) \<and>
   uiMode (classifyImage_settled (Response True (Json hdpe)) (classifyImage None preview_ready))
     = ResultShown \<and>
   predictionText (classifyImage_settled (Response True (Json hdpe)) (classifyImage None preview_ready))
     = Some (blank\<lparr>textContent := ''HDPE''\<rparr>) \<and>
   \<not> succeeded (Response True (Json unavailable)) \<and>
   uiMode (classifyImage_settled (Response True (Json unavailable)) (classifyImage None preview_ready))
     = PreviewReady \<and>
   Alert ''Classification Error: model unavailable''
     \<in> set (effects_since (classifyImage None preview_ready)
           (classifyImage_settled (Response True (Json unavailable)) (classifyImage None preview_ready)))"
proof -
  let ?s = "classifyImage None preview_ready"
  note ok = classifyImage_reports_outcome [of "Response True (Json hdpe)" ?s]
  note ko = classifyImage_reports_outcome [of "Response True (Json unavailable)" ?s]
  have 1: "uiMode (classifyImage_settled (Response True (Json hdpe)) ?s) = ResultShown"
    using ok payload_facts(1) classify_started_facts(1) by auto
  have 2: "predictionText (classifyImage_settled (Response True (Json hdpe)) ?s)
             = Some (blank\<lparr>textContent := ''HDPE''\<rparr>)"
    using ok payload_facts(1,3) classify_started_facts(2) by auto
  have 3: "uiMode (classifyImage_settled (Response True (Json unavailable)) ?s) = PreviewReady"
    using ko payload_facts(2) classify_started_mode by auto
  have 4: "Alert ''Classification Error: model unavailable''
     \<in> set (effects_since ?s (classifyImage_settled (Response True (Json unavailable)) ?s))"
    using ko payload_facts(4,5) by auto
  show ?thesis using 1 2 3 4 payload_facts(1,2) by simp
qed

subsection \<open>Intake: the preview\<close>

lemma handleFile_preview_fields:
  assumes "preview s = Some p" "dropzone s = Some dz" "dropzoneText s = Some t" "submitBtn s = Some b"
  shows "preview (handleFile_preview url s) =
           Some (p\<lparr>backgroundImage := ''url('' @ [CHR 0x27] @ url @ [CHR 0x27] @ '')'',
                   classList := classList_add ''active'' (classList p),
                   aria_hidden := Some ''false''\<rparr>)"
    and "dropzoneText (handleFile_preview url s) = Some (t\<lparr>display := ''none''\<rparr>)"
    and "submitBtn (handleFile_preview url s) = Some (b\<lparr>disabled := False\<rparr>)"
    and "preview_active (handleFile_preview url s)"
  using assms
  by (simp_all add: handleFile_preview_def Let_def preview_active_def classList_add_def)

lemma handleFile_preview_same [simp]:
  "selectedFile (handleFile_preview url s) = selectedFile s"
  "trace (handleFile_preview url s) = trace s"
  "resultsPanel (handleFile_preview url s) = resultsPanel s"
  "cameraInterface (handleFile_preview url s) = cameraInterface s"
  "spinner (handleFile_preview url s) = spinner s"
  "buttonText (handleFile_preview url s) = buttonText s"
  "cameraStream (handleFile_preview url s) = cameraStream s"
  "live (handleFile_preview url s) = live s"
  by (simp_all add: handleFile_preview_def Let_def split: option.splits)

lemma handleFile_preview_mode:
  assumes "preview s \<noteq> None" and "uiMode s = Empty \<or> uiMode s = PreviewReady"
  shows "uiMode (handleFile_preview url s) = PreviewReady"
proof -
  obtain p where p: "preview s = Some p"
    using assms(1) by (cases "preview s") auto
  have a: "preview_active (handleFile_preview url s)"
    using p by (simp add: handleFile_preview_def Let_def preview_active_def classList_add_def
        split: option.splits)
  have r: "\<not> has_display ''flex'' (resultsPanel s)" and c: "\<not> has_display ''flex'' (cameraInterface s)"
    using assms(2) by (auto simp add: uiMode_def split: if_splits)
  show ?thesis
    using a r c by (simp add: uiMode_def)
qed

lemma handleFile_onload_part0_fields:
  assumes "preview s = Some p" "dropzone s = Some dz" "dropzoneText s = Some t"
  shows "handleFile_onload_part0 f url s =
           Returned (s\<lparr>preview := Some
                         (p\<lparr>backgroundImage := ''url('' @ [CHR 0x27] @ url @ [CHR 0x27] @ '')'',
                            classList := classList_add ''active'' (classList p),
                            aria_hidden := Some ''false''\<rparr>),
                       dropzoneText := Some (t\<lparr>textContent := ''File: '' @ name f\<rparr>)\<rparr>)"
  using assms by (simp add: handleFile_onload_part0_def Let_def)

text \<open>
  C7 (amended). For every file with an allowed extension, \<^verbatim>\<open>handleFile\<close> stores it as
  the selected file and registers the load handler. When the handler applies the
  preview (the preview element, the drop zone, its text and the submit button being
  present), the preview shows the decoded image and carries the class \<^verbatim>\<open>active\<close>, and
  the submit button is enabled. In \<^verbatim>\<open>src/static/upload.js\<close> the helper text is hidden,
  and a page that was Empty or PreviewReady is PreviewReady; without \<^verbatim>\<open>autoClassify\<close>
  this is the state the handler leaves, with \<^verbatim>\<open>autoClassify\<close> the handler goes on to
  call \<^verbatim>\<open>classifyImage\<close> on it, which disables the submit button for the duration of
  the request. In the older copy the submit button is enabled by \<^verbatim>\<open>handleFile\<close> itself,
  and the helper text is not hidden: its content becomes the name of the file.
\<close>

theorem handleFile_preview_applied:
  assumes "fileExtension (name f) \<in> set allowedExtensions"
    and "preview s1 = Some p" and "dropzone s1 = Some dz" and "dropzoneText s1 = Some t"
    and "submitBtn s1 = Some b"
  shows "selectedFile (handleFile f a s) = Some f \<and>
         callbacks (handleFile f a s) = callbacks s @ [OnLoad f a] \<and>
         preview (handleFile_preview url s1) =
           Some (p\<lparr>backgroundImage := ''url('' @ [CHR 0x27] @ url @ [CHR 0x27] @ '')'',
                   classList := classList_add ''active'' (classList p),
                   aria_hidden := Some ''false''\<rparr>) \<and>
         preview_active (handleFile_preview url s1) \<and>
         dropzoneText (handleFile_preview url s1) = Some (t\<lparr>display := ''none''\<rparr>) \<and>
         submitBtn (handleFile_preview url s1) = Some (b\<lparr>disabled := False\<rparr>) \<and>
         (uiMode s1 = Empty \<or> uiMode s1 = PreviewReady \<longrightarrow>
            uiMode (handleFile_preview url s1) = PreviewReady) \<and>
         handleFile_onload f False url s1 = handleFile_preview url s1 \<and>
         handleFile_onload f True url s1 = classifyImage None (handleFile_preview url s1) \<and>
         (selectedFile s1 \<noteq> None \<longrightarrow>
            submitBtn (handleFile_onload f True url s1) = Some (b\<lparr>disabled := True\<rparr>)) \<and>
         submitBtn (state_of (handleFile_part0 f s1)) = Some (b\<lparr>disabled := False\<rparr>) \<and>
         handleFile_onload_part0 f url s1 =
           Returned (s1\<lparr>preview := Some
                         (p\<lparr>backgroundImage := ''url('' @ [CHR 0x27] @ url @ [CHR 0x27] @ '')'',
                            classList := classList_add ''active'' (classList p),
                            aria_hidden := Some ''false''\<rparr>),
                       dropzoneText := Some (t\<lparr>textContent := ''File: '' @ name f\<rparr>)\<rparr>)"
proof -
  note pv = handleFile_preview_fields [OF assms(2) assms(3) assms(4) assms(5), of url]
  have 1: "selectedFile (handleFile f a s) = Some f"
    and 2: "callbacks (handleFile f a s) = callbacks s @ [OnLoad f a]"
    by (simp_all add: handleFile_accepts [OF assms(1)])
  have 3: "uiMode s1 = Empty \<or> uiMode s1 = PreviewReady \<longrightarrow>
            uiMode (handleFile_preview url s1) = PreviewReady"
    using handleFile_preview_mode [of s1 url] assms(2) by simp
  have 4: "handleFile_onload f False url s1 = handleFile_preview url s1"
    and 5: "handleFile_onload f True url s1 = classifyImage None (handleFile_preview url s1)"
    by (simp_all add: handleFile_onload_def)
  have 6: "selectedFile s1 \<noteq> None \<longrightarrow>
            submitBtn (handleFile_onload f True url s1) = Some (b\<lparr>disabled := True\<rparr>)"
    using pv(3) by (auto simp add: 5 classifyImage_def showLoading_def Let_def)
  have 7: "submitBtn (state_of (handleFile_part0 f s1)) = Some (b\<lparr>disabled := False\<rparr>)"
    using assms(1) assms(5) by (simp add: handleFile_part0_def Let_def)
  note 8 = handleFile_onload_part0_fields [OF assms(2) assms(3) assms(4), of f url]
  show ?thesis
    by (intro conjI pv 1 2 3 4 5 6 7 8)
qed

text \<open>
  As the claim is stated (submit enabled and helper text hidden once the handler has
  run, for every accepted file) it fails: with \<^verbatim>\<open>autoClassify\<close> set the submit button
  is disabled when the handler returns, and in the older copy the helper text keeps
  its display value and shows the name of the file.
\<close>

theorem handleFile_auto_submit_counterexample:
  "fileExtension (name photo) \<in> set allowedExtensions \<and>
   submitBtn (handleFile_onload photo True ''data:image/png;base64,AAAA'' (handleFile photo True page0))
     = Some (blank\<lparr>disabled := True\<rparr>) \<and>
   dropzoneText (state_of (handleFile_onload_part0 photo ''data:image/png;base64,AAAA''
       (state_of (handleFile_part0 photo page0))))
     = Some (blank\<lparr>textContent := ''File: PHOTO.PNG''\<rparr>) \<and>
   display (blank\<lparr>textContent := ''File: PHOTO.PNG''\<rparr>) \<noteq> ''none''"
  using photo_allowed
  by (simp add: handleFile_accepts handleFile_onload_def handleFile_preview_def classifyImage_def
      showLoading_def Let_def handleFile_part0_def handleFile_onload_part0_def page0_def blank_def
      photo_def)

theorem handleFile_preview_applied_witness:
  "fileExtension (name photo) \<in> set allowedExtensions \<and>
   preview (handleFile photo False page0) = Some blank \<and>
   dropzone (handleFile photo False page0) = Some blank \<and>
   dropzoneText (handleFile photo False page0) = Some (blank\<lparr>textContent := ''Drop an image here''\<rparr>) \<and>
   submitBtn (handleFile photo False page0) = Some (blank\<lparr>disabled := True\<rparr>) \<and>
   uiMode (handleFile photo False page0) = Empty \<and>
   selectedFile (handleFile photo False page0) = Some photo \<and>
   uiMode (handleFile_preview ''data:image/png;base64,AAAA'' (handleFile photo False page0))
     = PreviewReady \<and>
   submitBtn (handleFile_preview ''data:image/png;base64,AAAA'' (handleFile photo False page0))
     = Some (blank\<lparr>disabled := True, disabled := False\<rparr>) \<and>
   dropzoneText (handleFile_preview ''data:image/png;base64,AAAA'' (handleFile photo False page0))
     = Some (blank\<lparr>textContent := ''Drop an image here'', display := ''none''\<rparr>) \<and>
   submitBtn (handleFile_onload photo True ''data:image/png;base64,AAAA'' (handleFile photo False page0))
     = Some (blank\<lparr>disabled := True, disabled := True\<rparr>)"
proof -
  let ?s1 = "handleFile photo False page0"
  let ?url = "''data:image/png;base64,AAAA''"
  have s1: "?s1 = page0\<lparr>selectedFile := Some photo, callbacks := callbacks page0 @ [OnLoad photo False],
       trace := trace page0 @ [ReadAsDataURL photo]\<rparr>"
    by (rule handleFile_accepts [OF photo_allowed])
  have h: "preview ?s1 = Some blank" "dropzone ?s1 = Some blank"
    "dropzoneText ?s1 = Some (blank\<lparr>textContent := ''Drop an image here''\<rparr>)"
    "submitBtn ?s1 = Some (blank\<lparr>disabled := True\<rparr>)"
    by (simp_all add: s1) (simp_all add: page0_def)
  have m: "uiMode ?s1 = Empty" and sel: "selectedFile ?s1 \<noteq> None"
    by (simp_all add: s1 uiMode_def has_display_def preview_active_def)
      (simp add: page0_def blank_def)
  note w = handleFile_preview_applied [OF photo_allowed h(1) h(2) h(3) h(4), of False page0 ?url]
  have 1: "selectedFile ?s1 = Some photo"
    using w by blast
  have 2: "uiMode (handleFile_preview ?url ?s1) = PreviewReady"
    using w m by blast
  have 3: "submitBtn (handleFile_preview ?url ?s1) = Some (blank\<lparr>disabled := True, disabled := False\<rparr>)"
    using w by blast
  have 4: "dropzoneText (handleFile_preview ?url ?s1)
             = Some (blank\<lparr>textContent := ''Drop an image here'', display := ''none''\<rparr>)"
    using w by blast
  have 5: "submitBtn (handleFile_onload photo True ?url ?s1)
             = Some (blank\<lparr>disabled := True, disabled := True\<rparr>)"
    using w sel by blast
  show ?thesis
    by (intro conjI photo_allowed h m 1 2 3 4 5)
qed

subsection \<open>Camera\<close>

lemma stopCamera_tracks_idem [simp]: "stopCamera_tracks (stopCamera_tracks s) = stopCamera_tracks s"
  by (simp add: stopCamera_tracks_def split: option.splits)

lemma stopCamera_tracks_fields [simp]:
  "cameraStream (stopCamera_tracks s) = None"
  "cameraFeed (stopCamera_tracks s) = cameraFeed s"
  "cameraInterface (stopCamera_tracks s) = cameraInterface s"
  "dropzone (stopCamera_tracks s) = dropzone s"
  "btnScan (stopCamera_tracks s) = btnScan s"
  "resultsPanel (stopCamera_tracks s) = resultsPanel s"
  "preview (stopCamera_tracks s) = preview s"
  "window_handleFile (stopCamera_tracks s) = window_handleFile s"
  "selectedFile (stopCamera_tracks s) = selectedFile s"
  by (simp_all add: stopCamera_tracks_def split: option.splits)

lemma stopCamera_tracks_effect:
  "live (stopCamera_tracks s) = live s - (case cameraStream s of None \<Rightarrow> {} | Some st \<Rightarrow> set st)"
  "trace (stopCamera_tracks s) = trace s @ (case cameraStream s of None \<Rightarrow> [] | Some st \<Rightarrow> map TrackStop st)"
  by (simp_all add: stopCamera_tracks_def split: option.splits)

lemma stopCamera_tracks_none: "cameraStream s = None \<Longrightarrow> stopCamera_tracks s = s"
  by (simp add: stopCamera_tracks_def)

lemma stopCamera_state:
  "cameraStream (state_of (stopCamera s)) = None"
  "live (state_of (stopCamera s)) = live (stopCamera_tracks s)"
  "trace (state_of (stopCamera s)) = trace (stopCamera_tracks s)"
  "window_handleFile (state_of (stopCamera s)) = window_handleFile s"
  "resultsPanel (state_of (stopCamera s)) = resultsPanel s"
  "preview (state_of (stopCamera s)) = preview s"
  "selectedFile (state_of (stopCamera s)) = selectedFile s"
  by (simp_all add: stopCamera_def Let_def split: option.splits)

lemma stopCamera_part0_state:
  "cameraStream (stopCamera_part0 s) = None"
  "live (stopCamera_part0 s) = live (stopCamera_tracks s)"
  "trace (stopCamera_part0 s) = trace (stopCamera_tracks s)"
  "window_handleFile (stopCamera_part0 s) = window_handleFile s"
  "resultsPanel (stopCamera_part0 s) = resultsPanel s"
  "preview (stopCamera_part0 s) = preview s"
  "selectedFile (stopCamera_part0 s) = selectedFile s"
  by (simp_all add: stopCamera_part0_def Let_def)

lemma stopCamera_twice: "stopCamera (state_of (stopCamera s)) = stopCamera s"
proof -
  define t where "t = stopCamera_tracks s"
  have c: "cameraStream t = None"
    by (simp add: t_def)
  show ?thesis
    unfolding stopCamera_def [of s] t_def [symmetric] Let_def
    using c
    by (cases "cameraFeed t"; cases "cameraInterface t"; cases "dropzone t"; cases "btnScan t";
        simp add: stopCamera_def Let_def stopCamera_tracks_def)
qed

lemma stopCamera_part0_twice: "stopCamera_part0 (stopCamera_part0 s) = stopCamera_part0 s"
proof -
  define t where "t = stopCamera_tracks s"
  have c: "cameraStream t = None"
    by (simp add: t_def)
  show ?thesis
    unfolding stopCamera_part0_def [of s] t_def [symmetric] Let_def
    using c
    by (cases "cameraFeed t"; cases "cameraInterface t"; cases "dropzone t"; cases "btnScan t";
        simp add: stopCamera_part0_def Let_def stopCamera_tracks_def)
qed

lemma has_display_none_flex [simp]: "\<not> has_display ''flex'' (Some (e\<lparr>display := ''none''\<rparr>))"
  by (simp add: has_display_def)

lemma stopCamera_mode:
  assumes "uiMode s \<noteq> CameraActive"
  shows "uiMode (state_of (stopCamera s)) = uiMode s"
proof -
  have p: "preview_active (state_of (stopCamera s)) = preview_active s"
    by (simp add: preview_active_def stopCamera_state)
  have c: "has_display ''flex'' (resultsPanel s) \<or> \<not> has_display ''flex'' (cameraInterface s)"
    using assms by (auto simp add: uiMode_def split: if_splits)
  have ci: "\<not> has_display ''flex'' (cameraInterface s) \<Longrightarrow>
            \<not> has_display ''flex'' (cameraInterface (state_of (stopCamera s)))"
    by (auto simp add: stopCamera_def Let_def has_display_def split: option.splits)
  show ?thesis
    using c ci p by (auto simp add: uiMode_def stopCamera_state)
qed

lemma stopCamera_part0_mode:
  assumes "uiMode s \<noteq> CameraActive"
  shows "uiMode (stopCamera_part0 s) = uiMode s"
proof -
  have p: "preview_active (stopCamera_part0 s) = preview_active s"
    by (simp add: preview_active_def stopCamera_part0_state)
  have c: "has_display ''flex'' (resultsPanel s) \<or> \<not> has_display ''flex'' (cameraInterface s)"
    using assms by (auto simp add: uiMode_def split: if_splits)
  have ci: "\<not> has_display ''flex'' (cameraInterface s) \<Longrightarrow>
            \<not> has_display ''flex'' (cameraInterface (stopCamera_part0 s))"
    by (auto simp add: stopCamera_part0_def Let_def has_display_def split: option.splits)
  show ?thesis
    using c ci p by (auto simp add: uiMode_def stopCamera_part0_state)
qed

text \<open>
  C8. \<^verbatim>\<open>stopCamera\<close> is idempotent. Invoked while no session is held it performs no
  device operation: no track is stopped, the set of running tracks and the trace are
  as before. A page that is not in CameraActive keeps its mode. Invoking it twice in a
  row gives the state, and the way of completing, of invoking it once. This holds for
  both copies of \<^verbatim>\<open>camera.js\<close>, also where the unchecked copy throws on a missing
  element.
\<close>

theorem stopCamera_idempotent:
  "stopCamera (state_of (stopCamera s)) = stopCamera s \<and>
   stopCamera_part0 (stopCamera_part0 s) = stopCamera_part0 s \<and>
   (cameraStream s = None \<longrightarrow>
      live (state_of (stopCamera s)) = live s \<and>
      trace (state_of (stopCamera s)) = trace s \<and>
      live (stopCamera_part0 s) = live s \<and>
      trace (stopCamera_part0 s) = trace s) \<and>
   (uiMode s \<noteq> CameraActive \<longrightarrow>
      uiMode (state_of (stopCamera s)) = uiMode s \<and>
      uiMode (stopCamera_part0 s) = uiMode s)"
proof -
  have a: "live (state_of (stopCamera s)) = live s \<and>
      trace (state_of (stopCamera s)) = trace s \<and>
      live (stopCamera_part0 s) = live s \<and>
      trace (stopCamera_part0 s) = trace s" if "cameraStream s = None"
    using that by (simp add: stopCamera_state stopCamera_part0_state stopCamera_tracks_none)
  have b: "uiMode (state_of (stopCamera s)) = uiMode s \<and> uiMode (stopCamera_part0 s) = uiMode s"
    if "uiMode s \<noteq> CameraActive"
    using that by (simp add: stopCamera_mode stopCamera_part0_mode)
  show ?thesis
    using stopCamera_twice [of s] stopCamera_part0_twice [of s] a b by blast
qed

theorem stopCamera_idempotent_witness:
  "cameraStream page0 = None \<and> uiMode page0 \<noteq> CameraActive \<and>
   live (state_of (stopCamera page0)) = {} \<and>
   trace (state_of (stopCamera page0)) = [] \<and>
   uiMode (state_of (stopCamera page0)) = Empty \<and>
   uiMode (stopCamera_part0 page0) = Empty \<and>
   stopCamera (state_of (stopCamera page0)) = stopCamera page0"
proof -
  note w = stopCamera_idempotent [of page0]
  have h: "cameraStream page0 = None" "uiMode page0 \<noteq> CameraActive"
    by (simp_all add: page0_facts)
  have 1: "live (state_of (stopCamera page0)) = {}" "trace (state_of (stopCamera page0)) = []"
    using w h(1) page0_facts by auto
  have 2: "uiMode (state_of (stopCamera page0)) = Empty" "uiMode (stopCamera_part0 page0) = Empty"
    using w h(2) page0_facts by auto
  have 3: "stopCamera (state_of (stopCamera page0)) = stopCamera page0"
    using w by blast
  show ?thesis
    by (intro conjI h 1 2 3)
qed

lemma camera_on_eq:
  "camera_on = page0\<lparr>cameraStream := Some [1], live := {1},
       cameraFeed := Some (blank\<lparr>srcObject := Some [1]\<rparr>),
       cameraInterface := Some (blank\<lparr>display := ''flex''\<rparr>),
       dropzone := Some (blank\<lparr>display := ''none''\<rparr>),
       btnScan := Some (blank\<lparr>display := ''none''\<rparr>),
       trace := [GetUserMedia, Play]\<rparr>"
  by (simp add: camera_on_def startCamera_def startCamera_stream_def startCamera_played_def
      Let_def page0_def)

lemma camera_on_facts:
  "cameraStream camera_on = Some [1]" "live camera_on = {1}" "trace camera_on = [GetUserMedia, Play]"
  "window_handleFile camera_on = Some Upload_static" "cameraFeed camera_on \<noteq> None"
  "uiMode camera_on = CameraActive" "callbacks camera_on = []"
  by (simp_all add: camera_on_eq uiMode_def has_display_def) (simp_all add: page0_def blank_def)

lemma capturedFile_allowed: "fileExtension (name (capturedFile b ts)) \<in> set allowedExtensions"
proof -
  have l: "toLowerCase ''jpg'' = ''jpg''"
    by code_simp
  have "name (capturedFile b ts) = (''camera_capture_'' @ decimal ts) @ CHR ''.'' # ''jpg''"
    by (simp add: capturedFile_def)
  then have "fileExtension (name (capturedFile b ts)) = toLowerCase ''jpg''"
    by (simp only: fileExtension_after_last_dot [of "''jpg''", simplified])
  then show ?thesis
    by (simp add: l allowedExtensions_def)
qed

lemma handleFile_camera [simp]:
  "cameraStream (handleFile f a s) = cameraStream s" "live (handleFile f a s) = live s"
  by (simp_all add: handleFile_def alert_def)

lemma handleFile_part0_camera [simp]:
  "cameraStream (state_of (handleFile_part0 f s)) = cameraStream s"
  "live (state_of (handleFile_part0 f s)) = live s"
  by (simp_all add: handleFile_part0_def alert_def Let_def split: option.splits)

lemma call_handleFile_camera [simp]:
  "cameraStream (state_of (call_handleFile h f a s)) = cameraStream s"
  "live (state_of (call_handleFile h f a s)) = live s"
  by (simp_all add: call_handleFile_def split: upload_script.splits)

lemma call_handleFile_trace: "\<exists>rest. trace (state_of (call_handleFile h f a s)) = trace s @ rest"
  by (simp add: call_handleFile_def handleFile_def handleFile_part0_def alert_def Let_def
      split: upload_script.splits option.splits)

lemma alert_camera [simp]:
  "cameraStream (alert m s) = cameraStream s" "live (alert m s) = live s"
  "trace (alert m s) = trace s @ [Alert m]"
  by (simp_all add: alert_def)

lemma capturePhoto_blob_cases:
  "capturePhoto_blob (Some b) ts s = Threw (state_of (stopCamera s)) \<or>
   (\<exists>h. capturePhoto_blob (Some b) ts s =
          call_handleFile h (capturedFile b ts) False (state_of (stopCamera s))) \<or>
   capturePhoto_blob (Some b) ts s =
     Returned (alert ''Error: Classification logic not loaded. Cannot process image.''
                 (state_of (stopCamera s)))"
  by (cases "stopCamera s") (auto simp add: capturePhoto_blob_def split: option.splits)

lemma capturePhoto_blob_part0_cases:
  "(\<exists>h. capturePhoto_blob_part0 (Some b) ts s =
          call_handleFile h (capturedFile b ts) True (stopCamera_part0 s)) \<or>
   capturePhoto_blob_part0 (Some b) ts s =
     Returned (alert ''Error: Classification logic not loaded. Cannot process image.''
                 (stopCamera_part0 s))"
  by (auto simp add: capturePhoto_blob_part0_def Let_def stopCamera_part0_state split: option.splits)

lemma capturePhoto_blob_teardown:
  "cameraStream (state_of (capturePhoto_blob (Some b) ts s)) = None"
  "live (state_of (capturePhoto_blob (Some b) ts s)) = live (stopCamera_tracks s)"
  "\<exists>rest. trace (state_of (capturePhoto_blob (Some b) ts s)) = trace (stopCamera_tracks s) @ rest"
  using capturePhoto_blob_cases [of b ts s]
    call_handleFile_trace [of _ "capturedFile b ts" False "state_of (stopCamera s)"]
  by (auto simp add: stopCamera_state)

lemma capturePhoto_blob_part0_teardown:
  "cameraStream (state_of (capturePhoto_blob_part0 (Some b) ts s)) = None"
  "live (state_of (capturePhoto_blob_part0 (Some b) ts s)) = live (stopCamera_tracks s)"
  "\<exists>rest. trace (state_of (capturePhoto_blob_part0 (Some b) ts s)) = trace (stopCamera_tracks s) @ rest"
  using capturePhoto_blob_part0_cases [of b ts s]
    call_handleFile_trace [of _ "capturedFile b ts" True "stopCamera_part0 s"]
  by (auto simp add: stopCamera_part0_state)

lemma capturePhoto_camera [simp]:
  "cameraStream (capturePhoto drawn s) = cameraStream s" "live (capturePhoto drawn s) = live s"
  by (simp_all add: capturePhoto_def alert_def console_error_def)

text \<open>
  C1 (amended). For every invocation of \<^verbatim>\<open>capturePhoto\<close> with an active session, the
  session is torn down when the encoder yields a blob: the callback first stops every
  track of the held stream and clears the handle, and only then hands the captured
  file on. \<^verbatim>\<open>capturePhoto\<close> itself leaves the session as it is, and when the encoder
  yields \<^verbatim>\<open>null\<close> the callback raises the alert and changes nothing else: the session
  stays active. Both copies of \<^verbatim>\<open>camera.js\<close> agree.
\<close>

theorem capturePhoto_teardown_on_blob:
  assumes "cameraStream s = Some st"
  shows "cameraStream (capturePhoto drawn s) = Some st \<and>
         live (capturePhoto drawn s) = live s \<and>
         cameraStream (state_of (capturePhoto_blob (Some b) ts s)) = None \<and>
         live (state_of (capturePhoto_blob (Some b) ts s)) = live s - set st \<and>
         (\<exists>rest. trace (state_of (capturePhoto_blob (Some b) ts s))
                   = trace s @ map TrackStop st @ rest) \<and>
         cameraStream (state_of (capturePhoto_blob_part0 (Some b) ts s)) = None \<and>
         live (state_of (capturePhoto_blob_part0 (Some b) ts s)) = live s - set st \<and>
         (\<exists>rest. trace (state_of (capturePhoto_blob_part0 (Some b) ts s))
                   = trace s @ map TrackStop st @ rest) \<and>
         capturePhoto_blob None ts s =
           Returned (s\<lparr>trace := trace s @ [Alert ''Failed to create image file from capture.'']\<rparr>) \<and>
         capturePhoto_blob_part0 None ts s = capturePhoto_blob None ts s"
proof -
  have t: "live (stopCamera_tracks s) = live s - set st"
    "trace (stopCamera_tracks s) = trace s @ map TrackStop st"
    using assms by (simp_all add: stopCamera_tracks_effect)
  have 1: "cameraStream (capturePhoto drawn s) = Some st" "live (capturePhoto drawn s) = live s"
    using assms by simp_all
  note a = capturePhoto_blob_teardown [of b ts s, unfolded t]
  note c = capturePhoto_blob_part0_teardown [of b ts s, unfolded t]
  have a3: "\<exists>rest. trace (state_of (capturePhoto_blob (Some b) ts s))
                   = trace s @ map TrackStop st @ rest"
    using a(3) by simp
  have c3: "\<exists>rest. trace (state_of (capturePhoto_blob_part0 (Some b) ts s))
                   = trace s @ map TrackStop st @ rest"
    using c(3) by simp
  have n: "capturePhoto_blob None ts s =
           Returned (s\<lparr>trace := trace s @ [Alert ''Failed to create image file from capture.'']\<rparr>)"
    "capturePhoto_blob_part0 None ts s = capturePhoto_blob None ts s"
    by (simp_all add: capturePhoto_blob_def capturePhoto_blob_part0_def alert_def)
  show ?thesis
    by (intro conjI 1 a(1) a(2) a3 c(1) c(2) c3 n)
qed

text \<open>
  As the claim is stated (torn down whether or not the encoding succeeds) it fails on
  the path where the encoder yields \<^verbatim>\<open>null\<close>: after the callback the handle is still
  held, track 1 is still running, and no track was stopped.
\<close>

theorem capturePhoto_null_blob_counterexample:
  "cameraStream (capturePhoto True camera_on) = Some [1] \<and>
   live (capturePhoto True camera_on) = {1} \<and>
   cameraStream (state_of (capturePhoto_blob None 5 (capturePhoto True camera_on))) = Some [1] \<and>
   live (state_of (capturePhoto_blob None 5 (capturePhoto True camera_on))) = {1} \<and>
   trace (state_of (capturePhoto_blob None 5 (capturePhoto True camera_on)))
     = [GetUserMedia, Play, ToBlob, Alert ''Failed to create image file from capture.''] \<and>
   cameraStream (state_of (capturePhoto_blob_part0 None 5 (capturePhoto True camera_on))) = Some [1] \<and>
   live (state_of (capturePhoto_blob_part0 None 5 (capturePhoto True camera_on))) = {1}"
  using camera_on_facts
  by (simp add: capturePhoto_blob_def capturePhoto_blob_part0_def capturePhoto_def)

theorem capturePhoto_teardown_on_blob_witness:
  "cameraStream camera_on = Some [1] \<and>
   cameraStream (state_of (capturePhoto_blob (Some 7) 5 camera_on)) = None \<and>
   live (state_of (capturePhoto_blob (Some 7) 5 camera_on)) = {} \<and>
   cameraStream (state_of (capturePhoto_blob_part0 (Some 7) 5 camera_on)) = None \<and>
   live (state_of (capturePhoto_blob_part0 (Some 7) 5 camera_on)) = {}"
proof -
  note w = capturePhoto_teardown_on_blob [OF camera_on_facts(1), of True 7 5]
  have 1: "cameraStream (state_of (capturePhoto_blob (Some 7) 5 camera_on)) = None"
    "cameraStream (state_of (capturePhoto_blob_part0 (Some 7) 5 camera_on)) = None"
    using w by blast+
  have "live (state_of (capturePhoto_blob (Some 7) 5 camera_on)) = live camera_on - set [1]"
    "live (state_of (capturePhoto_blob_part0 (Some 7) 5 camera_on)) = live camera_on - set [1]"
    using w by blast+
  then have 2: "live (state_of (capturePhoto_blob (Some 7) 5 camera_on)) = {}"
    "live (state_of (capturePhoto_blob_part0 (Some 7) 5 camera_on)) = {}"
    by (simp_all add: camera_on_facts)
  show ?thesis
    by (intro conjI camera_on_facts(1) 1 2)
qed

lemma stopCamera_camera_on:
  "stopCamera (capturePhoto True camera_on) =
     Returned (page0\<lparr>cameraFeed := Some (blank\<lparr>srcObject := Some [1], srcObject := None\<rparr>),
       cameraInterface := Some (blank\<lparr>display := ''flex'', display := ''none''\<rparr>),
       dropzone := Some (blank\<lparr>display := ''none'', display := ''flex''\<rparr>),
       btnScan := Some (blank\<lparr>display := ''none'', display := ''block''\<rparr>),
       trace := [GetUserMedia, Play, ToBlob, TrackStop 1]\<rparr>)"
  by (simp add: camera_on_eq capturePhoto_def stopCamera_def stopCamera_tracks_def Let_def)
     (simp add: page0_def)

lemma stopCamera_part0_camera_on:
  "stopCamera_part0 (capturePhoto True camera_on) =
     page0\<lparr>cameraFeed := Some (blank\<lparr>srcObject := Some [1], srcObject := None\<rparr>),
       cameraInterface := Some (blank\<lparr>display := ''flex'', display := ''none''\<rparr>),
       dropzone := Some (blank\<lparr>display := ''none'', display := ''flex''\<rparr>),
       btnScan := Some (blank\<lparr>display := ''none'', display := ''block''\<rparr>),
       trace := [GetUserMedia, Play, ToBlob, TrackStop 1]\<rparr>"
  by (simp add: camera_on_eq capturePhoto_def stopCamera_part0_def stopCamera_tracks_def Let_def)
     (simp add: page0_def)

text \<open>
  C2. A successful capture is to hand the captured file to \<^verbatim>\<open>handleFile\<close> with the
  auto-submit flag set, so that the request is sent as soon as the preview is applied,
  ending in ResultShown on success. Evaluated on the page with the camera on, a blob
  and a time stamp: the callback of \<^verbatim>\<open>src/static/camera.js\<close> registers the load handler
  with \<^verbatim>\<open>autoClassify\<close> false; when that handler runs the trace ends with the reader
  call, no request is sent, and the page waits in PreviewReady. The copy of
  \<^verbatim>\<open>camera.js\<close> in the unnamed file, which passes \<^verbatim>\<open>true\<close>, registers the handler with
  \<^verbatim>\<open>autoClassify\<close> true; its run switches the busy indicator on and sends the request,
  and a successful response ends in ResultShown.
\<close>

theorem capture_without_auto_submit:
  "callbacks (state_of (capturePhoto_blob (Some 7) 42 (capturePhoto True camera_on)))
     = [OnLoad (capturedFile 7 42) False] \<and>
   trace (state_of (run_callback (OnLoad (capturedFile 7 42) False) ''data:image/jpeg;base64,AAAA''
       (state_of (capturePhoto_blob (Some 7) 42 (capturePhoto True camera_on)))))
     = [GetUserMedia, Play, ToBlob, TrackStop 1, ReadAsDataURL (capturedFile 7 42)] \<and>
   callbacks (state_of (capturePhoto_blob_part0 (Some 7) 42 (capturePhoto True camera_on)))
     = [OnLoad (capturedFile 7 42) True] \<and>
   trace (state_of (run_callback (OnLoad (capturedFile 7 42) True) ''data:image/jpeg;base64,AAAA''
       (state_of (capturePhoto_blob_part0 (Some 7) 42 (capturePhoto True camera_on)))))
     = [GetUserMedia, Play, ToBlob, TrackStop 1, ReadAsDataURL (capturedFile 7 42),
        LoadingOn, Fetch (capturedFile 7 42)] \<and>
   uiMode (state_of (run_callback (OnLoad (capturedFile 7 42) False) ''data:image/jpeg;base64,AAAA''
       (state_of (capturePhoto_blob (Some 7) 42 (capturePhoto True camera_on)))))
     = PreviewReady \<and>
   uiMode (classifyImage_settled (Response True (Json hdpe))
       (state_of (run_callback (OnLoad (capturedFile 7 42) True) ''data:image/jpeg;base64,AAAA''
          (state_of (capturePhoto_blob_part0 (Some 7) 42 (capturePhoto True camera_on))))))
     = ResultShown"
  by (simp add: capturePhoto_blob_def capturePhoto_blob_part0_def stopCamera_camera_on
      stopCamera_part0_camera_on call_handleFile_def handleFile_accepts [OF capturedFile_allowed]
      handleFile_onload_def handleFile_preview_def classifyImage_def showLoading_def Let_def
      page0_def uiMode_def has_display_def preview_active_def classList_add_def blank_def
      classifyImage_settled_def classifyImage_response_def hideLoading_def displayResults_def
      hdpe_def)

lemma session_inv_cong:
  "live s' = live s \<Longrightarrow> cameraStream s' = cameraStream s \<Longrightarrow> session_inv s' = session_inv s"
  by (simp add: session_inv_def)

lemma session_inv_stopCamera_tracks: "session_inv s \<Longrightarrow> session_inv (stopCamera_tracks s)"
  by (auto simp add: session_inv_def stopCamera_tracks_def split: option.splits)

lemma session_inv_stopCamera:
  assumes "session_inv s"
  shows "session_inv (state_of (stopCamera s))" and "session_inv (stopCamera_part0 s)"
proof -
  have "session_inv (state_of (stopCamera s)) = session_inv (stopCamera_tracks s)"
    by (rule session_inv_cong) (simp_all add: stopCamera_state)
  then show "session_inv (state_of (stopCamera s))"
    using assms by (simp add: session_inv_stopCamera_tracks)
  have "session_inv (stopCamera_part0 s) = session_inv (stopCamera_tracks s)"
    by (rule session_inv_cong) (simp_all add: stopCamera_part0_state)
  then show "session_inv (stopCamera_part0 s)"
    using assms by (simp add: session_inv_stopCamera_tracks)
qed

lemma session_inv_log [simp]:
  "session_inv (alert m s) = session_inv s"
  "session_inv (console_error m s) = session_inv s"
  "session_inv (s\<lparr>trace := t\<rparr>) = session_inv s"
  by (simp_all add: session_inv_def alert_def console_error_def)

lemma session_inv_interface [simp]:
  "session_inv (s\<lparr>cameraInterface := a\<rparr>) = session_inv s"
  "session_inv (s\<lparr>dropzone := d\<rparr>) = session_inv s"
  "session_inv (s\<lparr>btnScan := b\<rparr>) = session_inv s"
  "session_inv (s\<lparr>cameraFeed := v\<rparr>) = session_inv s"
  by (simp_all add: session_inv_def)

lemma session_inv_startCamera_catch:
  assumes "session_inv s"
  shows "session_inv (state_of (startCamera_catch s))" and "session_inv (startCamera_catch_part0 s)"
  using assms
  by (simp_all add: startCamera_catch_def startCamera_catch_part0_def session_inv_stopCamera)

lemma session_inv_startCamera: "session_inv (startCamera s) = session_inv s"
  by (simp add: startCamera_def split: option.splits)

lemma session_inv_capturePhoto: "session_inv (capturePhoto drawn s) = session_inv s"
  by (rule session_inv_cong) simp_all

lemma session_inv_startCamera_stream_rejected:
  assumes "session_inv s"
  shows "session_inv (state_of (startCamera_stream None s))"
    and "session_inv (startCamera_stream_part0 None s)"
  using assms
  by (simp_all add: startCamera_stream_def startCamera_stream_part0_def
      session_inv_startCamera_catch split: option.splits)

lemma session_inv_startCamera_stream:
  assumes "session_inv s" and "cameraStream s = None"
  shows "session_inv (state_of (startCamera_stream (Some st) s))"
    and "session_inv (startCamera_stream_part0 (Some st) s)"
  using assms
  by (auto simp add: startCamera_stream_def startCamera_stream_part0_def session_inv_def
      split: option.splits)

lemma startCamera_stream_replaces:
  assumes "cameraFeed s \<noteq> None"
  shows "cameraStream (state_of (startCamera_stream (Some st) s)) = Some st"
    and "cameraStream (startCamera_stream_part0 (Some st) s) = Some st"
    and "live (state_of (startCamera_stream (Some st) s)) = live s \<union> set st"
    and "live (startCamera_stream_part0 (Some st) s) = live s \<union> set st"
  using assms
  by (auto simp add: startCamera_stream_def startCamera_stream_part0_def split: option.splits)

lemma session_inv_startCamera_played:
  assumes "session_inv s"
  shows "session_inv (state_of (startCamera_played ok s))"
    and "session_inv (startCamera_played_part0 ok s)"
proof -
  show "session_inv (startCamera_played_part0 ok s)"
    using assms session_inv_startCamera_catch(2) [OF assms]
    by (simp add: startCamera_played_part0_def session_inv_def)
  have u: "session_inv (state_of (startCamera_catch (s\<lparr>cameraInterface := a\<rparr>)))"
    "session_inv (state_of (startCamera_catch (s\<lparr>cameraInterface := a, dropzone := d\<rparr>)))" for a d
    by (rule session_inv_startCamera_catch, simp add: assms)+
  show "session_inv (state_of (startCamera_played ok s))"
    using assms session_inv_startCamera_catch(1) [OF assms] u
    by (simp add: startCamera_played_def Let_def split: option.splits)
qed

lemma session_inv_capturePhoto_blob:
  assumes "session_inv s"
  shows "session_inv (state_of (capturePhoto_blob b ts s))"
    and "session_inv (state_of (capturePhoto_blob_part0 b ts s))"
proof -
  show "session_inv (state_of (capturePhoto_blob b ts s))"
  proof (cases b)
    case None
    then show ?thesis using assms by (simp add: capturePhoto_blob_def)
  next
    case (Some bl)
    have "live (state_of (capturePhoto_blob (Some bl) ts s)) = live (stopCamera_tracks s)"
      "cameraStream (state_of (capturePhoto_blob (Some bl) ts s)) = cameraStream (stopCamera_tracks s)"
      by (simp_all add: capturePhoto_blob_teardown)
    then have "session_inv (state_of (capturePhoto_blob (Some bl) ts s)) = session_inv (stopCamera_tracks s)"
      by (rule session_inv_cong)
    then show ?thesis
      using assms Some by (simp add: session_inv_stopCamera_tracks)
  qed
  show "session_inv (state_of (capturePhoto_blob_part0 b ts s))"
  proof (cases b)
    case None
    then show ?thesis using assms by (simp add: capturePhoto_blob_part0_def)
  next
    case (Some bl)
    have "live (state_of (capturePhoto_blob_part0 (Some bl) ts s)) = live (stopCamera_tracks s)"
      "cameraStream (state_of (capturePhoto_blob_part0 (Some bl) ts s)) = cameraStream (stopCamera_tracks s)"
      by (simp_all add: capturePhoto_blob_part0_teardown)
    then have "session_inv (state_of (capturePhoto_blob_part0 (Some bl) ts s)) = session_inv (stopCamera_tracks s)"
      by (rule session_inv_cong)
    then show ?thesis
      using assms Some by (simp add: session_inv_stopCamera_tracks)
  qed
qed

lemma upload_keeps_camera:
  "live (classifyImage e s) = live s" "cameraStream (classifyImage e s) = cameraStream s"
  "live (classifyImage_settled r s) = live s" "cameraStream (classifyImage_settled r s) = cameraStream s"
  "live (handleFile_onload f a url s) = live s" "cameraStream (handleFile_onload f a url s) = cameraStream s"
  by (simp_all add: classifyImage_def showLoading_def hideLoading_def alert_def console_error_def
      classifyImage_settled_def classifyImage_response_def classifyImage_catch_def
      displayResults_def handleFile_onload_def Let_def
      split: option.splits fetch_result.splits body.splits)

lemma hideLoading_part0_camera [simp]:
  "live (state_of (hideLoading_part0 s)) = live s"
  "cameraStream (state_of (hideLoading_part0 s)) = cameraStream s"
  by (simp_all add: hideLoading_part0_def Let_def split: option.splits)

lemma showLoading_part0_camera [simp]:
  "live (state_of (showLoading_part0 s)) = live s"
  "cameraStream (state_of (showLoading_part0 s)) = cameraStream s"
  by (simp_all add: showLoading_part0_def Let_def split: option.splits)

lemma displayResults_part0_camera [simp]:
  "live (state_of (displayResults_part0 d s)) = live s"
  "cameraStream (state_of (displayResults_part0 d s)) = cameraStream s"
  by (simp_all add: displayResults_part0_def Let_def split: option.splits)

lemma classifyImage_catch_camera [simp]:
  "live (classifyImage_catch s) = live s" "cameraStream (classifyImage_catch s) = cameraStream s"
  by (simp_all add: classifyImage_catch_def alert_def console_error_def)

lemma classifyImage_response_part0_camera [simp]:
  "live (classifyImage_response_part0 r s) = live s"
  "cameraStream (classifyImage_response_part0 r s) = cameraStream s"
proof -
  have d: "live (case displayResults_part0 d s of Returned s1 \<Rightarrow> s1 | Threw s1 \<Rightarrow> classifyImage_catch s1) = live s"
    "cameraStream (case displayResults_part0 d s of Returned s1 \<Rightarrow> s1 | Threw s1 \<Rightarrow> classifyImage_catch s1)
       = cameraStream s" for d
    using displayResults_part0_camera [of d s]
    by (cases "displayResults_part0 d s"; simp)+
  show "live (classifyImage_response_part0 r s) = live s"
    "cameraStream (classifyImage_response_part0 r s) = cameraStream s"
    by (simp_all add: classifyImage_response_part0_def d alert_def console_error_def
        split: fetch_result.splits body.splits)
qed

lemma upload_part0_keeps_camera:
  "live (state_of (classifyImage_part0 e s)) = live s"
  "cameraStream (state_of (classifyImage_part0 e s)) = cameraStream s"
  "live (state_of (classifyImage_settled_part0 r s)) = live s"
  "cameraStream (state_of (classifyImage_settled_part0 r s)) = cameraStream s"
  "live (state_of (handleFile_onload_part0 f url s)) = live s"
  "cameraStream (state_of (handleFile_onload_part0 f url s)) = cameraStream s"
proof -
  have sh: "live (state_of (case showLoading_part0 s0 of
              Returned s1 \<Rightarrow> Returned (s1\<lparr>trace := trace s1 @ [Fetch f]\<rparr>)
            | Threw s1 \<Rightarrow> hideLoading_part0 (classifyImage_catch s1))) = live s0"
    "cameraStream (state_of (case showLoading_part0 s0 of
              Returned s1 \<Rightarrow> Returned (s1\<lparr>trace := trace s1 @ [Fetch f]\<rparr>)
            | Threw s1 \<Rightarrow> hideLoading_part0 (classifyImage_catch s1))) = cameraStream s0" for s0 f
    using showLoading_part0_camera [of s0]
    by (cases "showLoading_part0 s0"; simp)+
  show "live (state_of (classifyImage_part0 e s)) = live s"
    "cameraStream (state_of (classifyImage_part0 e s)) = cameraStream s"
    by (simp_all add: classifyImage_part0_def Let_def sh alert_def split: option.splits)
  show "live (state_of (classifyImage_settled_part0 r s)) = live s"
    "cameraStream (state_of (classifyImage_settled_part0 r s)) = cameraStream s"
    by (simp_all add: classifyImage_settled_part0_def)
  show "live (state_of (handleFile_onload_part0 f url s)) = live s"
    "cameraStream (state_of (handleFile_onload_part0 f url s)) = cameraStream s"
    by (simp_all add: handleFile_onload_part0_def Let_def split: option.splits)
qed

lemma session_inv_upload:
  "session_inv (state_of (call_handleFile h f a s)) = session_inv s"
  "session_inv (state_of (run_callback c url s)) = session_inv s"
  "session_inv (classifyImage e s) = session_inv s"
  "session_inv (classifyImage_settled r s) = session_inv s"
  "session_inv (state_of (classifyImage_part0 e s)) = session_inv s"
  "session_inv (state_of (classifyImage_settled_part0 r s)) = session_inv s"
proof -
  show "session_inv (state_of (run_callback c url s)) = session_inv s"
    by (cases c) (simp_all add: session_inv_def upload_keeps_camera upload_part0_keeps_camera)
qed (simp_all add: session_inv_def upload_keeps_camera upload_part0_keeps_camera)

lemma startCamera_played_hides_button:
  assumes "cameraFeed s \<noteq> None"
    and "cameraInterface s = Some ci" "dropzone s = Some d" "btnScan s = Some bs"
  shows "btnScan (state_of (startCamera_played True s)) = Some (bs\<lparr>display := ''none''\<rparr>)"
    and "btnScan (startCamera_played_part0 True s) = Some (bs\<lparr>display := ''none''\<rparr>)"
  using assms by (auto simp add: startCamera_played_def startCamera_played_part0_def Let_def)

text \<open>
  C9 (amended). The module holds one stream handle. Every running track belongs to the
  held stream, so that at most one stream is live, and every operation of the two
  scripts keeps this: stop, capture and its callback, a start that fails, the upload
  handlers, and a start that acquires its stream while no session is held; after such
  a start exactly the tracks of the new stream run and the handle is the new stream.
  A successful start hides the scan button.
\<close>

theorem single_session_kept:
  assumes "session_inv s"
  shows "session_inv (state_of (stopCamera s)) \<and> session_inv (stopCamera_part0 s) \<and>
         session_inv (startCamera s) \<and>
         session_inv (state_of (startCamera_stream None s)) \<and>
         session_inv (startCamera_stream_part0 None s) \<and>
         (cameraStream s = None \<longrightarrow>
            session_inv (state_of (startCamera_stream (Some st) s)) \<and>
            session_inv (startCamera_stream_part0 (Some st) s)) \<and>
         session_inv (state_of (startCamera_played ok s)) \<and>
         session_inv (startCamera_played_part0 ok s) \<and>
         session_inv (capturePhoto drawn s) \<and>
         session_inv (state_of (capturePhoto_blob b ts s)) \<and>
         session_inv (state_of (capturePhoto_blob_part0 b ts s)) \<and>
         session_inv (state_of (call_handleFile h f a s)) \<and>
         session_inv (state_of (run_callback c url s)) \<and>
         session_inv (classifyImage e s) \<and>
         session_inv (classifyImage_settled r s) \<and>
         session_inv (state_of (classifyImage_part0 e s)) \<and>
         session_inv (state_of (classifyImage_settled_part0 r s)) \<and>
         (cameraStream s = None \<and> cameraFeed s \<noteq> None \<longrightarrow>
            cameraStream (state_of (startCamera_stream (Some st) s)) = Some st \<and>
            cameraStream (startCamera_stream_part0 (Some st) s) = Some st \<and>
            live (state_of (startCamera_stream (Some st) s)) = set st \<and>
            live (startCamera_stream_part0 (Some st) s) = set st) \<and>
         (\<forall>ci d bs. cameraFeed s \<noteq> None \<and> cameraInterface s = Some ci \<and> dropzone s = Some d \<and>
              btnScan s = Some bs \<longrightarrow>
            btnScan (state_of (startCamera_played True s)) = Some (bs\<lparr>display := ''none''\<rparr>) \<and>
            btnScan (startCamera_played_part0 True s) = Some (bs\<lparr>display := ''none''\<rparr>))"
proof -
  have 1: "cameraStream s = None \<longrightarrow>
            session_inv (state_of (startCamera_stream (Some st) s)) \<and>
            session_inv (startCamera_stream_part0 (Some st) s)"
    using session_inv_startCamera_stream [OF assms] by simp
  have 0: "cameraStream s = None \<longrightarrow> live s = {}"
    using assms by (auto simp add: session_inv_def)
  have 2: "cameraStream s = None \<and> cameraFeed s \<noteq> None \<longrightarrow>
            cameraStream (state_of (startCamera_stream (Some st) s)) = Some st \<and>
            cameraStream (startCamera_stream_part0 (Some st) s) = Some st \<and>
            live (state_of (startCamera_stream (Some st) s)) = set st \<and>
            live (startCamera_stream_part0 (Some st) s) = set st"
    using startCamera_stream_replaces [of s st] 0 by simp
  have 3: "\<forall>ci d bs. cameraFeed s \<noteq> None \<and> cameraInterface s = Some ci \<and> dropzone s = Some d \<and>
              btnScan s = Some bs \<longrightarrow>
            btnScan (state_of (startCamera_played True s)) = Some (bs\<lparr>display := ''none''\<rparr>) \<and>
            btnScan (startCamera_played_part0 True s) = Some (bs\<lparr>display := ''none''\<rparr>)"
    using startCamera_played_hides_button [of s] by simp
  have 4: "session_inv (startCamera s)" "session_inv (capturePhoto drawn s)"
    using assms by (simp_all add: session_inv_startCamera session_inv_capturePhoto)
  have 5: "session_inv (state_of (call_handleFile h f a s))"
    "session_inv (state_of (run_callback c url s))"
    "session_inv (classifyImage e s)"
    "session_inv (classifyImage_settled r s)"
    "session_inv (state_of (classifyImage_part0 e s))"
    "session_inv (state_of (classifyImage_settled_part0 r s))"
    using assms by (simp_all add: session_inv_upload)
  show ?thesis
    by (intro conjI session_inv_stopCamera [OF assms] 4
        session_inv_startCamera_stream_rejected [OF assms] 1
        session_inv_startCamera_played [OF assms] session_inv_capturePhoto_blob [OF assms] 5 2 3)
qed

lemma double_start_eq:
  "double_start = page0\<lparr>cameraStream := Some [2], live := {1, 2},
       cameraFeed := Some (blank\<lparr>srcObject := Some [2]\<rparr>),
       cameraInterface := Some (blank\<lparr>display := ''flex''\<rparr>),
       dropzone := Some (blank\<lparr>display := ''none''\<rparr>),
       btnScan := Some (blank\<lparr>display := ''none''\<rparr>),
       trace := [GetUserMedia, GetUserMedia, Play, Play]\<rparr>"
  by (simp add: double_start_def startCamera_def startCamera_stream_def startCamera_played_def
      Let_def page0_def blank_def insert_commute)

text \<open>
  As the claim is stated (at most one live stream in every reachable state, a new start
  superseding the previous session without leaving its tracks running) it fails: the
  scan button is hidden only once a start has succeeded, so it can be pressed twice
  while the device has not answered. Both requests are granted; the second replaces
  the handle, no track is ever stopped, and track 1 keeps running outside the held
  stream.
\<close>

theorem double_start_counterexample:
  "session_inv page0 \<and>
   cameraStream double_start = Some [2] \<and>
   live double_start = {1, 2} \<and>
   trace double_start = [GetUserMedia, GetUserMedia, Play, Play] \<and>
   \<not> session_inv double_start"
  by (simp add: double_start_eq session_inv_def page0_facts)

theorem single_session_kept_witness:
  "session_inv camera_on \<and> session_inv page0 \<and> cameraStream page0 = None \<and>
   session_inv (state_of (stopCamera camera_on)) \<and>
   session_inv (state_of (startCamera_stream (Some [1]) page0)) \<and>
   cameraStream (state_of (startCamera_stream (Some [1]) page0)) = Some [1] \<and>
   live (state_of (startCamera_stream (Some [1]) page0)) = {1} \<and>
   session_inv (state_of (capturePhoto_blob None 5 camera_on))"
proof -
  have h: "session_inv camera_on" "session_inv page0"
    by (simp_all add: session_inv_def camera_on_facts page0_facts)
  have f: "cameraFeed page0 \<noteq> None"
    by (simp add: page0_def)
  note w = single_session_kept [OF h(1), where b = None and ts = 5]
  note v = single_session_kept [OF h(2), where st = "[1]"]
  have 1: "session_inv (state_of (stopCamera camera_on))"
    "session_inv (state_of (capturePhoto_blob None 5 camera_on))"
    using w by blast+
  have 2: "session_inv (state_of (startCamera_stream (Some [1]) page0))"
    using v page0_facts(2) by blast
  have 3: "cameraStream (state_of (startCamera_stream (Some [1]) page0)) = Some [1]"
    using v f page0_facts(2) by blast
  have "live (state_of (startCamera_stream (Some [1]) page0)) = set [1]"
    using v f page0_facts(2) by blast
  then have 4: "live (state_of (startCamera_stream (Some [1]) page0)) = {1}"
    by simp
  show ?thesis
    by (intro conjI h page0_facts(2) 1 2 3 4)
qed

end
